theory Spec2Isabelle
  imports Main "HOL-Library.Word"
begin

section \<open>JavaScript values used by the backend\<close>

text \<open>
  The backend (\<^verbatim>\<open>src/backend.js\<close>) receives duck-typed message objects from the
  chat-protocol client and stores them through \<^verbatim>\<open>src/database.js\<close>. A JavaScript number is
  modelled as a mathematical integer or \<open>NaN\<close>; this is exact for integers of magnitude
  below \<open>2^53\<close>, which is where the theorems about arithmetic are stated. Fractions and
  infinities are outside the model.
\<close>

datatype jsnum = Num int | NaN

text \<open>The value of a \<^verbatim>\<open>messageTimestamp\<close> field: a number, a string, a protobuf Long object
  with \<^verbatim>\<open>low\<close> and \<^verbatim>\<open>high\<close> words, or some other object.\<close>

datatype tsval = TNumber jsnum | TString string | TLong int int | TObject

text \<open>JavaScript truthiness of an optional field (\<open>None\<close> is \<^verbatim>\<open>undefined\<close>).\<close>

fun truthyTs :: "tsval option \<Rightarrow> bool" where
  "truthyTs None = False"
| "truthyTs (Some (TNumber (Num n))) = (n \<noteq> 0)"
| "truthyTs (Some (TNumber NaN)) = False"
| "truthyTs (Some (TString s)) = (s \<noteq> [])"
| "truthyTs (Some (TLong low high)) = True"
| "truthyTs (Some TObject) = True"

fun truthyStr :: "string option \<Rightarrow> bool" where
  "truthyStr None = False"
| "truthyStr (Some s) = (s \<noteq> [])"

text \<open>\<^verbatim>\<open>a || b\<close> on optional strings.\<close>

definition orStr :: "string option \<Rightarrow> string option \<Rightarrow> string option" where
  "orStr a b = (if truthyStr a then a else b)"

text \<open>\<^verbatim>\<open>x * 1000\<close> on a number.\<close>

fun times1000 :: "jsnum \<Rightarrow> jsnum" where
  "times1000 (Num n) = Num (n * 1000)"
| "times1000 NaN = NaN"

subsection \<open>\<^verbatim>\<open>parseInt\<close> without a radix argument\<close>

text \<open>
  Leading white space is skipped (the ASCII white space characters; Unicode spaces are
  outside the byte strings of the model), a sign is read, a \<^verbatim>\<open>0x\<close> prefix selects radix 16,
  and the longest prefix of digits is the value; no digit at all gives \<open>NaN\<close>.
\<close>

definition isWhite :: "char \<Rightarrow> bool" where
  "isWhite c = (let n = (of_char c :: nat) in n = 9 \<or> n = 10 \<or> n = 11 \<or> n = 12 \<or> n = 13 \<or> n = 32)"

definition digitVal :: "char \<Rightarrow> nat option" where
  "digitVal c = (let n = (of_char c :: nat) in
     if 48 \<le> n \<and> n \<le> 57 then Some (n - 48)
     else if 97 \<le> n \<and> n \<le> 102 then Some (n - 87)
     else if 65 \<le> n \<and> n \<le> 70 then Some (n - 55)
     else None)"

definition isDigit :: "nat \<Rightarrow> char \<Rightarrow> bool" where
  "isDigit r c = (case digitVal c of Some d \<Rightarrow> d < r | None \<Rightarrow> False)"

definition digitsValue :: "nat \<Rightarrow> string \<Rightarrow> nat" where
  "digitsValue r s = foldl (\<lambda>a c. a * r + (case digitVal c of Some d \<Rightarrow> d | None \<Rightarrow> 0)) 0 s"

definition parseDigits :: "nat \<Rightarrow> string \<Rightarrow> int option" where
  "parseDigits r s = (let z = takeWhile (isDigit r) s in
     if z = [] then None else Some (int (digitsValue r z)))"

definition parseUnsigned :: "string \<Rightarrow> int option" where
  "parseUnsigned s = (case s of
      c # d # rest \<Rightarrow>
        (if c = CHR ''0'' \<and> (d = CHR ''x'' \<or> d = CHR ''X'') then parseDigits 16 rest
         else parseDigits 10 s)
    | _ \<Rightarrow> parseDigits 10 s)"

definition parseInt :: "string \<Rightarrow> jsnum" where
  "parseInt str = (let s = dropWhile isWhite str in
     case s of
       [] \<Rightarrow> NaN
     | c # rest \<Rightarrow>
        (if c = CHR ''-'' then (case parseUnsigned rest of None \<Rightarrow> NaN | Some v \<Rightarrow> Num (- v))
         else if c = CHR ''+'' then (case parseUnsigned rest of None \<Rightarrow> NaN | Some v \<Rightarrow> Num v)
         else (case parseUnsigned s of None \<Rightarrow> NaN | Some v \<Rightarrow> Num v)))"

text \<open>The decimal rendering of a number, as a template literal \<^verbatim>\<open>${n}\<close> produces it.\<close>

fun decimal :: "nat \<Rightarrow> string" where
  "decimal n = (if n < 10 then [char_of (48 + n)] else decimal (n div 10) @ [char_of (48 + n mod 10)])"

declare decimal.simps [simp del]

definition showInt :: "int \<Rightarrow> string" where
  "showInt i = (if i < 0 then CHR ''-'' # decimal (nat (- i)) else decimal (nat i))"

section \<open>Raw messages\<close>

record msg_key =
  key_id :: string
  fromMe :: bool
  remoteJid :: "string option"

text \<open>
  The typed content object of a message. A text field is an optional string; a media
  object is present or absent and may carry a text (\<open>Some None\<close> is the object without it).
\<close>

record content =
  conversation :: "string option"
  extendedTextMessage :: "string option option"
  imageMessage :: "string option option"
  videoMessage :: "string option option"
  audioMessage :: bool
  documentMessage :: "string option option"
  stickerMessage :: bool
  locationMessage :: bool
  liveLocationMessage :: bool
  contactMessage :: bool
  contactsArrayMessage :: bool
  groupInviteMessage :: bool
  buttonsMessage :: bool
  templateMessage :: bool
  listMessage :: bool
  reactionMessage :: bool
  pollCreationMessage :: bool
  pollUpdateMessage :: bool

text \<open>
  \<^verbatim>\<open>msg.message\<close>: for a live message it carries the content fields itself; for a history
  message it wraps them one level deeper in \<^verbatim>\<open>message\<close>, next to its own timestamp and key.
\<close>

record wrapper =
  w_content :: content
  w_message :: "content option"
  w_messageTimestamp :: "tsval option"
  w_key :: "msg_key option"

record raw_msg =
  key :: "msg_key option"
  message :: "wrapper option"
  messageTimestamp :: "tsval option"
  pushName :: "string option"
  participant :: "string option"
  notify :: "string option"

text \<open>\<^verbatim>\<open>getMessageTimestamp\<close> (backend.js); \<open>now\<close> is the reading of \<^verbatim>\<open>Date.now()\<close>.\<close>

definition getMessageTimestamp :: "int \<Rightarrow> raw_msg \<Rightarrow> jsnum" where
  "getMessageTimestamp now msg =
    (let timestamp =
       (case message msg of
          Some w \<Rightarrow> if truthyTs (w_messageTimestamp w) then w_messageTimestamp w
                    else messageTimestamp msg
        | None \<Rightarrow> messageTimestamp msg)
     in if \<not> truthyTs timestamp then Num now
        else (case timestamp of
            Some (TLong low high) \<Rightarrow> Num ((high mod 2 ^ 32 * 4294967296 + low mod 2 ^ 32) * 1000)
          | Some (TNumber n) \<Rightarrow> times1000 n
          | Some (TString s) \<Rightarrow> times1000 (parseInt s)
          | _ \<Rightarrow> Num now))"

text \<open>\<^verbatim>\<open>getMessageKey\<close>: the top-level key, else the key of a history wrapper.\<close>

definition getMessageKey :: "raw_msg \<Rightarrow> msg_key option" where
  "getMessageKey msg =
    (case key msg of
       Some k \<Rightarrow> Some k
     | None \<Rightarrow> (case message msg of Some w \<Rightarrow> w_key w | None \<Rightarrow> None))"

text \<open>The content object both \<^verbatim>\<open>getDisplayMessage\<close> and \<^verbatim>\<open>getMessageType\<close> look at: the
  nested \<^verbatim>\<open>msg.message.message\<close> of a history message when there is one.\<close>

definition messageObj :: "raw_msg \<Rightarrow> content option" where
  "messageObj msg =
    (case message msg of
       None \<Rightarrow> None
     | Some w \<Rightarrow> (case w_message w of Some c \<Rightarrow> Some c | None \<Rightarrow> Some (w_content w)))"

text \<open>\<^verbatim>\<open>getDisplayMessage\<close>; the result \<open>None\<close> is \<^verbatim>\<open>undefined\<close> (an extended text
  object without text).\<close>

definition getDisplayMessage :: "raw_msg \<Rightarrow> string option" where
  "getDisplayMessage msg =
    (case messageObj msg of
       None \<Rightarrow> Some []
     | Some c \<Rightarrow>
        if truthyStr (conversation c) then conversation c
        else if extendedTextMessage c \<noteq> None then the (extendedTextMessage c)
        else if imageMessage c \<noteq> None then orStr (the (imageMessage c)) (Some ''[Image]'')
        else if videoMessage c \<noteq> None then orStr (the (videoMessage c)) (Some ''[Video]'')
        else if audioMessage c then Some ''[Audio]''
        else if documentMessage c \<noteq> None then orStr (the (documentMessage c)) (Some ''[Document]'')
        else if stickerMessage c then Some ''[Sticker]''
        else if locationMessage c then Some ''[Location]''
        else if contactMessage c then Some ''[Contact]''
        else Some ''[Unsupported Message]'')"

text \<open>\<^verbatim>\<open>getMessageType\<close>: the first entry of the type table whose field is set.\<close>

definition getMessageType :: "raw_msg \<Rightarrow> string" where
  "getMessageType msg =
    (case messageObj msg of
       None \<Rightarrow> ''text''
     | Some c \<Rightarrow>
        if truthyStr (conversation c) then ''text''
        else if extendedTextMessage c \<noteq> None then ''text''
        else if imageMessage c \<noteq> None then ''image''
        else if videoMessage c \<noteq> None then ''video''
        else if audioMessage c then ''audio''
        else if documentMessage c \<noteq> None then ''document''
        else if stickerMessage c then ''sticker''
        else if locationMessage c then ''location''
        else if liveLocationMessage c then ''live_location''
        else if contactMessage c then ''contact''
        else if contactsArrayMessage c then ''contacts''
        else if groupInviteMessage c then ''group_invite''
        else if buttonsMessage c then ''buttons''
        else if templateMessage c then ''template''
        else if listMessage c then ''list''
        else if reactionMessage c then ''reaction''
        else if pollCreationMessage c then ''poll''
        else if pollUpdateMessage c then ''poll_update''
        else ''unknown'')"

text \<open>\<^verbatim>\<open>formatLastMessageContent\<close>; \<open>None\<close> is \<^verbatim>\<open>null\<close>.\<close>

definition formatLastMessageContent :: "string option \<Rightarrow> string \<Rightarrow> string option" where
  "formatLastMessageContent c messageType =
    (if messageType = ''text'' then orStr c (Some ''No messages yet'') else None)"

section \<open>The durable store (database.js)\<close>

text \<open>
  The three tables the reconciler and the live processor write, with the columns of
  \<^verbatim>\<open>createTables\<close> and \<^verbatim>\<open>runMigrations\<close>. Each table is a map from its primary key
  (\<^verbatim>\<open>jid\<close>, \<^verbatim>\<open>id\<close>, \<^verbatim>\<open>jid\<close>) to the other columns; \<open>None\<close> in a column is SQL NULL. The
  bookkeeping columns \<^verbatim>\<open>created_at\<close> and \<^verbatim>\<open>updated_at\<close>, the never-written
  \<^verbatim>\<open>reply_to_id\<close>, and the media and settings tables are left out. Statements fail only
  by the constraints of the schema; faults of the storage engine are not modelled.
\<close>

record chat_row =
  c_name :: "string option"
  c_avatar_base64 :: "string option"
  c_last_message_id :: "string option"
  c_last_message_timestamp :: "int option"
  c_last_message_type :: "string option"
  c_last_message_from :: "string option"
  c_unread_count :: int
  c_is_archived :: bool
  c_history_baseline_timestamp :: "int option"
  c_last_sync_timestamp :: "int option"
  c_history_complete :: bool

record message_row =
  m_chat_jid :: string
  m_from_me :: bool
  m_message_type :: string
  m_content :: string
  m_timestamp :: int
  m_status :: string
  m_collection_session :: "string option"

record contact_row =
  ct_name :: "string option"
  ct_phone_number :: "string option"
  ct_avatar_base64 :: "string option"
  ct_is_blocked :: bool

record store =
  tbl_chats :: "string \<rightharpoonup> chat_row"
  tbl_messages :: "string \<rightharpoonup> message_row"
  tbl_contacts :: "string \<rightharpoonup> contact_row"

datatype db_error = NotNullFailed | ForeignKeyFailed

text \<open>Binding a JavaScript number to an INTEGER column: \<open>NaN\<close> is stored as NULL.\<close>

fun sqlInt :: "jsnum \<Rightarrow> int option" where
  "sqlInt (Num n) = Some n"
| "sqlInt NaN = None"

text \<open>
  \<^verbatim>\<open>FOREIGN KEY (chat_jid) REFERENCES chats (jid) ON DELETE CASCADE\<close> with
  \<^verbatim>\<open>PRAGMA foreign_keys = ON\<close>: deleting a chat row deletes the messages of that chat.
\<close>

definition cascadeDelete :: "string \<Rightarrow> (string \<rightharpoonup> message_row) \<Rightarrow> (string \<rightharpoonup> message_row)" where
  "cascadeDelete jid ms =
    (\<lambda>k. case ms k of None \<Rightarrow> None
                   | Some r \<Rightarrow> if m_chat_jid r = jid then None else Some r)"

text \<open>
  \<^verbatim>\<open>saveChat\<close>: \<^verbatim>\<open>INSERT OR REPLACE INTO chats (jid, name, avatar_base64, last_message_id,
  last_message_timestamp, last_message_type, last_message_from, updated_at)\<close>. REPLACE
  deletes the row that holds the key, which cascades to its messages, and inserts the new
  row; the columns that the statement does not list take their defaults.
\<close>

definition saveChat ::
  "store \<Rightarrow> string \<Rightarrow> string option \<Rightarrow> string option \<Rightarrow> int option \<Rightarrow> string option \<Rightarrow> string
     \<Rightarrow> string option \<Rightarrow> store" where
  "saveChat db jid name lastMessageId timestamp avatarBase64 lastMessageType lastMessageFrom =
    db\<lparr>tbl_chats := (tbl_chats db)(jid \<mapsto>
          \<lparr>c_name = name, c_avatar_base64 = avatarBase64, c_last_message_id = lastMessageId,
           c_last_message_timestamp = timestamp, c_last_message_type = Some lastMessageType,
           c_last_message_from = lastMessageFrom, c_unread_count = 0, c_is_archived = False,
           c_history_baseline_timestamp = None, c_last_sync_timestamp = None,
           c_history_complete = False\<rparr>),
       tbl_messages := (if tbl_chats db jid = None then tbl_messages db
                        else cascadeDelete jid (tbl_messages db))\<rparr>"

text \<open>\<^verbatim>\<open>saveContact\<close>: \<^verbatim>\<open>INSERT OR REPLACE INTO contacts (jid, name, phone_number,
  avatar_base64, updated_at)\<close>.\<close>

definition saveContact ::
  "store \<Rightarrow> string \<Rightarrow> string option \<Rightarrow> string option \<Rightarrow> string option \<Rightarrow> store" where
  "saveContact db jid name phoneNumber avatarBase64 =
    db\<lparr>tbl_contacts := (tbl_contacts db)(jid \<mapsto>
          \<lparr>ct_name = name, ct_phone_number = phoneNumber, ct_avatar_base64 = avatarBase64,
           ct_is_blocked = False\<rparr>)\<rparr>"

definition getContact :: "store \<Rightarrow> string \<Rightarrow> contact_row option" where
  "getContact db jid = tbl_contacts db jid"

definition getChatHistoryInfo :: "store \<Rightarrow> string \<Rightarrow> chat_row option" where
  "getChatHistoryInfo db jid = tbl_chats db jid"

text \<open>\<^verbatim>\<open>setChatHistoryBaseline\<close> and \<^verbatim>\<open>updateChatSyncTimestamp\<close>: an UPDATE of the row of
  \<open>jid\<close>, which changes nothing when there is no such row.\<close>

definition setChatHistoryBaseline :: "store \<Rightarrow> string \<Rightarrow> jsnum \<Rightarrow> store" where
  "setChatHistoryBaseline db jid timestamp =
    (case tbl_chats db jid of
       None \<Rightarrow> db
     | Some r \<Rightarrow> db\<lparr>tbl_chats := (tbl_chats db)(jid \<mapsto>
                      r\<lparr>c_history_baseline_timestamp := sqlInt timestamp\<rparr>)\<rparr>)"

definition updateChatSyncTimestamp :: "store \<Rightarrow> string \<Rightarrow> jsnum \<Rightarrow> store" where
  "updateChatSyncTimestamp db jid timestamp =
    (case tbl_chats db jid of
       None \<Rightarrow> db
     | Some r \<Rightarrow> db\<lparr>tbl_chats := (tbl_chats db)(jid \<mapsto>
                      r\<lparr>c_last_sync_timestamp := sqlInt timestamp\<rparr>)\<rparr>)"

text \<open>
  \<^verbatim>\<open>saveMessage\<close>: \<^verbatim>\<open>INSERT OR REPLACE INTO messages\<close> under the primary key \<^verbatim>\<open>id\<close>,
  which fails on a NULL timestamp (\<^verbatim>\<open>timestamp INTEGER NOT NULL\<close>) and on a chat that has
  no row (the foreign key); then the contact of an incoming message with a sender name is
  replaced, and the last-message columns of the chat row are updated.
\<close>

definition saveMessage ::
  "store \<Rightarrow> string \<Rightarrow> string \<Rightarrow> bool \<Rightarrow> string \<Rightarrow> jsnum \<Rightarrow> string \<Rightarrow> string \<Rightarrow> string option
     \<Rightarrow> string option \<Rightarrow> db_error + store" where
  "saveMessage db mid chatJid fromMe' content' timestamp messageType status senderName
      collectionSession =
    (case sqlInt timestamp of
       None \<Rightarrow> Inl NotNullFailed
     | Some ts \<Rightarrow>
        (case tbl_chats db chatJid of
           None \<Rightarrow> Inl ForeignKeyFailed
         | Some _ \<Rightarrow>
            let db1 = db\<lparr>tbl_messages := (tbl_messages db)(mid \<mapsto>
                         \<lparr>m_chat_jid = chatJid, m_from_me = fromMe', m_message_type = messageType,
                          m_content = content', m_timestamp = ts, m_status = status,
                          m_collection_session = collectionSession\<rparr>)\<rparr>;
                db2 = (if \<not> fromMe' \<and> truthyStr senderName
                       then saveContact db1 chatJid senderName None None else db1);
                lastMessageFrom = (if fromMe' then ''me'' else chatJid)
            in Inr (case tbl_chats db2 chatJid of
                 None \<Rightarrow> db2
               | Some r \<Rightarrow> db2\<lparr>tbl_chats := (tbl_chats db2)(chatJid \<mapsto>
                    r\<lparr>c_last_message_id := Some mid, c_last_message_timestamp := Some ts,
                      c_last_message_type := Some messageType,
                      c_last_message_from := Some lastMessageFrom,
                      c_name := (if truthyStr senderName \<and> \<not> fromMe' then senderName
                                 else c_name r)\<rparr>)\<rparr>)))"

text \<open>\<^verbatim>\<open>cleanup\<close>: \<^verbatim>\<open>DELETE FROM messages WHERE timestamp < ?\<close> with six months (of thirty
  days) before \<open>now\<close>.\<close>

definition sixMonths :: int where
  "sixMonths = 6 * 30 * 24 * 60 * 60 * 1000"

definition cleanup :: "int \<Rightarrow> store \<Rightarrow> store" where
  "cleanup now db =
    db\<lparr>tbl_messages := (\<lambda>k. case tbl_messages db k of None \<Rightarrow> None
          | Some r \<Rightarrow> if m_timestamp r < now - sixMonths then None else Some r)\<rparr>"

section \<open>The history reconciler (backend.js)\<close>

text \<open>One conversation of a \<^verbatim>\<open>messaging-history.set\<close> delivery; an absent \<^verbatim>\<open>messages\<close> array
  behaves as the empty one at every use.\<close>

record chat =
  chat_id :: string
  chat_name :: "string option"
  chat_messages :: "raw_msg list"
  chat_unreadCount :: "int option"

record history_item =
  item_chats :: "chat list"
  isLatest :: bool

text \<open>An entry of the in-memory conversation list that is sent as \<^verbatim>\<open>initial_chats\<close>.\<close>

record chatData =
  cd_jid :: string
  cd_name :: string
  cd_lastMessage :: "string option"
  cd_timestamp :: jsnum
  cd_lastMessageType :: string
  cd_lastMessageFrom :: "string option"
  cd_unreadCount :: int
  cd_avatarBase64 :: "string option"
  cd_chatAvatarBase64 :: "string option"
  cd_phoneNumber :: "string option"

datatype js_error = TypeError | RangeError | DatabaseError db_error

text \<open>\<^verbatim>\<open>a || d\<close> with a string default.\<close>

definition orDefault :: "string option \<Rightarrow> string \<Rightarrow> string" where
  "orDefault a d = (case a of None \<Rightarrow> d | Some s \<Rightarrow> if s = [] then d else s)"

text \<open>Truthiness of a nullable INTEGER column, \<^verbatim>\<open>a || b\<close> on two of them, and
  \<^verbatim>\<open>x > t\<close> for a number and such a value (\<^verbatim>\<open>null\<close> compares as 0, \<open>NaN\<close> is never
  greater).\<close>

definition truthyInt :: "int option \<Rightarrow> bool" where
  "truthyInt a = (case a of None \<Rightarrow> False | Some n \<Rightarrow> n \<noteq> 0)"

definition orInt :: "int option \<Rightarrow> int option \<Rightarrow> int option" where
  "orInt a b = (if truthyInt a then a else b)"

fun greaterThan :: "jsnum \<Rightarrow> int option \<Rightarrow> bool" where
  "greaterThan NaN t = False"
| "greaterThan (Num n) None = (n > 0)"
| "greaterThan (Num n) (Some t) = (n > t)"

text \<open>
  The body of the loop of \<^verbatim>\<open>saveMessagesFromHistory\<close>, on the store and the two counters
  \<^verbatim>\<open>savedMessageCount\<close> and \<^verbatim>\<open>skippedMessageCount\<close>: a message without a key id is
  skipped, and so is one whose \<^verbatim>\<open>saveMessage\<close> throws.
\<close>

definition saveHistoryMessage ::
  "int \<Rightarrow> string \<Rightarrow> string option \<Rightarrow> string \<Rightarrow> raw_msg \<Rightarrow> store \<times> nat \<times> nat \<Rightarrow> store \<times> nat \<times> nat" where
  "saveHistoryMessage now chatId chatName collectionSession msg st =
    (case st of (db, savedMessageCount, skippedMessageCount) \<Rightarrow>
      let messageContent = getDisplayMessage msg;
          messageType = getMessageType msg;
          messageKey = getMessageKey msg;
          timestamp = getMessageTimestamp now msg
      in (case messageKey of
            None \<Rightarrow> (db, savedMessageCount, Suc skippedMessageCount)
          | Some k \<Rightarrow>
             (if key_id k = [] then (db, savedMessageCount, Suc skippedMessageCount)
              else (case saveMessage db (key_id k) chatId (fromMe k)
                          (orDefault messageContent ''[Message content unavailable]'')
                          timestamp messageType (if fromMe k then ''sent'' else ''received'')
                          (Some (orDefault (pushName msg) (orDefault (participant msg)
                             (orDefault chatName ''Unknown''))))
                          (Some collectionSession) of
                     Inl e \<Rightarrow> (db, savedMessageCount, Suc skippedMessageCount)
                   | Inr db' \<Rightarrow> (db', Suc savedMessageCount, skippedMessageCount)))))"

text \<open>The loop itself, and \<^verbatim>\<open>saveMessagesFromHistory\<close>, which returns the saved count.\<close>

definition saveHistoryLoop ::
  "int \<Rightarrow> string \<Rightarrow> string option \<Rightarrow> string \<Rightarrow> raw_msg list \<Rightarrow> store \<times> nat \<times> nat \<Rightarrow> store \<times> nat \<times> nat" where
  "saveHistoryLoop now chatId chatName collectionSession msgs st =
    fold (saveHistoryMessage now chatId chatName collectionSession) msgs st"

definition saveMessagesFromHistory :: "int \<Rightarrow> chat \<Rightarrow> string \<Rightarrow> store \<Rightarrow> store \<times> nat" where
  "saveMessagesFromHistory now c collectionSession db =
    (if chat_messages c = [] then (db, 0)
     else (case saveHistoryLoop now (chat_id c) (chat_name c) collectionSession
                  (chat_messages c) (db, 0, 0) of
             (db', savedMessageCount, skippedMessageCount) \<Rightarrow> (db', savedMessageCount)))"

text \<open>
  The summary of the conversation's first listed message, which \<^verbatim>\<open>handleHistorySet\<close> takes
  as the last message. \<^verbatim>\<open>lastMessage.key.fromMe\<close> throws a TypeError when that message has
  no top-level key.
\<close>

record summary =
  s_id :: "string option"
  s_type :: string
  s_content :: "string option"
  s_from :: "string option"
  s_timestamp :: jsnum

definition lastMessageSummary :: "int \<Rightarrow> chat \<Rightarrow> js_error + summary" where
  "lastMessageSummary now c =
    (case chat_messages c of
       [] \<Rightarrow> Inr \<lparr>s_id = None, s_type = ''text'', s_content = None, s_from = None,
                 s_timestamp = Num now\<rparr>
     | lastMessage # _ \<Rightarrow>
        (case key lastMessage of
           None \<Rightarrow> Inl TypeError
         | Some k \<Rightarrow> Inr \<lparr>s_id = Some (key_id k), s_type = getMessageType lastMessage,
                          s_content = getDisplayMessage lastMessage,
                          s_from = Some (if fromMe k then ''me'' else chat_id c),
                          s_timestamp = getMessageTimestamp now lastMessage\<rparr>))"

text \<open>
  \<^verbatim>\<open>new Date(t).toISOString()\<close>, which the loop body of \<^verbatim>\<open>handleHistorySet\<close> evaluates in two
  log lines, throws a RangeError unless \<open>t\<close> is a number of magnitude at most 8.64e15;
  \<open>nullableNum\<close> is the number that a nullable INTEGER column converts to (\<^verbatim>\<open>null\<close> is 0).
\<close>

definition validDate :: "jsnum \<Rightarrow> bool" where
  "validDate t = (case t of NaN \<Rightarrow> False | Num n \<Rightarrow> \<bar>n\<bar> \<le> 8640000000000000)"

definition nullableNum :: "int option \<Rightarrow> jsnum" where
  "nullableNum a = (case a of None \<Rightarrow> Num 0 | Some n \<Rightarrow> Num n)"

text \<open>
  The two branches of the loop body of \<^verbatim>\<open>handleHistorySet\<close>, for a new and for an existing
  conversation, on the store left by \<^verbatim>\<open>saveChat\<close> and \<^verbatim>\<open>saveContact\<close>. The result is the
  store reached and the exception thrown there, if any: the log line of the new branch
  comes after \<^verbatim>\<open>setChatHistoryBaseline\<close> and before the messages are saved, the log line of
  the other branch before the messages are saved. The clock readings of one delivery are
  identified: \<open>now\<close> stands for \<^verbatim>\<open>currentTime\<close> and for the later \<^verbatim>\<open>Date.now()\<close> calls.
\<close>

definition syncMessages ::
  "int \<Rightarrow> chat \<Rightarrow> chat_row option \<Rightarrow> store \<Rightarrow> js_error option \<times> store" where
  "syncMessages now c historyInfo db2 =
    (let isNewChat = (case historyInfo of None \<Rightarrow> True
                      | Some h \<Rightarrow> \<not> truthyInt (c_history_baseline_timestamp h))
     in if isNewChat then
          (if chat_messages c \<noteq> [] then
             let oldestMessage = last (chat_messages c);
                 baselineTimestamp = getMessageTimestamp now oldestMessage;
                 dbb = setChatHistoryBaseline db2 (chat_id c) baselineTimestamp
             in if validDate baselineTimestamp
                then (None, fst (saveMessagesFromHistory now c
                                   (''initial-sync-'' @ showInt now) dbb))
                else (Some RangeError, dbb)
           else (None, db2))
        else
          (let lastSyncTime = (case historyInfo of None \<Rightarrow> None
                 | Some h \<Rightarrow> orInt (c_last_sync_timestamp h) (c_history_baseline_timestamp h))
           in if chat_messages c \<noteq> [] then
                let newMessages = filter (\<lambda>msg. greaterThan (getMessageTimestamp now msg)
                                            lastSyncTime) (chat_messages c)
                in if newMessages \<noteq> [] then
                     (if validDate (nullableNum lastSyncTime)
                      then (None, fst (saveMessagesFromHistory now
                                         (c\<lparr>chat_messages := newMessages\<rparr>)
                                         (''progressive-sync-'' @ showInt now) db2))
                      else (Some RangeError, db2))
                   else (None, db2)
              else (None, db2)))"

text \<open>The entry \<^verbatim>\<open>chatData\<close> that the loop body builds for the conversation list, and
  its first two writes: \<^verbatim>\<open>saveChat\<close>, and \<^verbatim>\<open>saveContact\<close> when the conversation has
  a name of its own.\<close>

definition chatEntry :: "chat \<Rightarrow> summary \<Rightarrow> chatData" where
  "chatEntry c sm =
    \<lparr>cd_jid = chat_id c, cd_name = orDefault (chat_name c) (chat_id c),
     cd_lastMessage = formatLastMessageContent (s_content sm) (s_type sm),
     cd_timestamp = s_timestamp sm, cd_lastMessageType = s_type sm,
     cd_lastMessageFrom = s_from sm,
     cd_unreadCount = (case chat_unreadCount c of None \<Rightarrow> 0 | Some n \<Rightarrow> n),
     cd_avatarBase64 = None, cd_chatAvatarBase64 = None, cd_phoneNumber = None\<rparr>"

definition saveChatAndContact :: "chat \<Rightarrow> summary \<Rightarrow> store \<Rightarrow> store" where
  "saveChatAndContact c sm db =
    (let chatData = chatEntry c sm;
         db1 = saveChat db (cd_jid chatData) (Some (cd_name chatData)) (s_id sm)
                 (sqlInt (cd_timestamp chatData)) None (s_type sm) (s_from sm)
     in if truthyStr (chat_name c) \<and> chat_name c \<noteq> Some (chat_id c)
        then saveContact db1 (chat_id c) (chat_name c) None None else db1)"

text \<open>
  The statements of the loop body after the summary is computed, on the store and the list
  \<^verbatim>\<open>chats\<close>: the history cursors are read, the entry is pushed, the conversation and its
  contact are saved, the messages are synchronized, and \<^verbatim>\<open>updateChatSyncTimestamp\<close> runs
  when nothing was thrown. The result is the exception, if any, with the state reached.
\<close>

definition reconcileChat ::
  "int \<Rightarrow> chat \<Rightarrow> summary \<Rightarrow> store \<times> chatData list
     \<Rightarrow> js_error option \<times> store \<times> chatData list" where
  "reconcileChat now c sm st =
    (case st of (db, chats) \<Rightarrow>
      (case syncMessages now c (getChatHistoryInfo db (chat_id c))
              (saveChatAndContact c sm db) of
         (Some e, db3) \<Rightarrow> (Some e, db3, chats @ [chatEntry c sm])
       | (None, db3) \<Rightarrow>
           (None, updateChatSyncTimestamp db3 (chat_id c) (Num now),
            chats @ [chatEntry c sm])))"

text \<open>
  One iteration of the loop over \<^verbatim>\<open>item.chats\<close>: the body, whose TypeError comes before
  the first write, and the \<^verbatim>\<open>try\<close>/\<^verbatim>\<open>catch\<close> around it, which logs the exception and goes
  on from the state the body has reached.
\<close>

definition processChatBody ::
  "int \<Rightarrow> chat \<Rightarrow> store \<times> chatData list \<Rightarrow> js_error option \<times> store \<times> chatData list" where
  "processChatBody now c st =
    (case lastMessageSummary now c of
       Inl e \<Rightarrow> (Some e, st)
     | Inr sm \<Rightarrow> reconcileChat now c sm st)"

definition processChat :: "int \<Rightarrow> chat \<Rightarrow> store \<times> chatData list \<Rightarrow> store \<times> chatData list" where
  "processChat now c st = snd (processChatBody now c st)"

section \<open>The backend state and the outward channel\<close>

datatype readyState = CONNECTING | OPEN | CLOSING | CLOSED

record newMessage =
  nm_id :: string
  nm_content :: string
  nm_timestamp :: jsnum
  nm_type :: string
  nm_from :: string
  nm_fromMe :: bool
  nm_chatJid :: string
  nm_contactName :: "string option"
  nm_avatarBase64 :: "string option"
  nm_senderName :: "string option"

datatype payload =
    InitialChats "chatData list"
  | NewMessage newMessage
  | ErrorInfo string string

text \<open>
  The module-level variables of backend.js that the handlers below use, the store, and
  \<open>outbox\<close>: the envelopes \<^verbatim>\<open>{type, data}\<close> written to the consumer's socket, oldest
  first.
\<close>

record backend =
  database :: store
  initialChatsPayload :: "chatData list option"
  clientIsWaitingForChats :: bool
  clientSocket :: "readyState option"
  outbox :: "(string \<times> payload) list"

definition sendToFrontend :: "string \<Rightarrow> payload \<Rightarrow> backend \<Rightarrow> backend" where
  "sendToFrontend ty data b =
    (if clientSocket b = Some OPEN then b\<lparr>outbox := outbox b @ [(ty, data)]\<rparr> else b)"

definition handleHistorySet :: "int \<Rightarrow> history_item \<Rightarrow> backend \<Rightarrow> backend" where
  "handleHistorySet now item b =
    (case fold (processChat now) (item_chats item) (database b, []) of
       (db', chats) \<Rightarrow>
         let b1 = b\<lparr>database := db', initialChatsPayload := Some chats\<rparr>
         in if clientIsWaitingForChats b1
            then (sendToFrontend ''initial_chats'' (InitialChats chats) b1)
                   \<lparr>clientIsWaitingForChats := False\<rparr>
            else b1)"

section \<open>The live event processor (backend.js)\<close>

record upsert =
  up_messages :: "raw_msg list"
  up_type :: string

text \<open>
  \<^verbatim>\<open>msg.messageTimestamp * 1000\<close>: the multiplication of a number; on \<^verbatim>\<open>undefined\<close> it is
  \<open>NaN\<close>; on a string or an object JavaScript first converts the operand to a number,
  which is the parameter \<open>toNumber\<close>.
\<close>

definition mulThousand :: "(tsval \<Rightarrow> jsnum) \<Rightarrow> tsval option \<Rightarrow> jsnum" where
  "mulThousand toNumber t =
    (case t of None \<Rightarrow> NaN
     | Some (TNumber n) \<Rightarrow> times1000 n
     | Some v \<Rightarrow> times1000 (toNumber v))"

definition handleMessagesUpsertBody ::
  "(tsval \<Rightarrow> jsnum) \<Rightarrow> upsert \<Rightarrow> backend \<Rightarrow> js_error + backend" where
  "handleMessagesUpsertBody toNumber m b =
    (case up_messages m of
       [] \<Rightarrow> Inl TypeError
     | msg # _ \<Rightarrow>
        (case key msg of
           None \<Rightarrow> Inl TypeError
         | Some k \<Rightarrow>
            if \<not> fromMe k \<and> up_type m = ''notify'' then
              (case getDisplayMessage msg of
                 None \<Rightarrow> Inr b
               | Some messageContent \<Rightarrow>
                  if messageContent = [] then Inr b
                  else
                    let contactName = (if truthyStr (pushName msg) then pushName msg
                                       else if truthyStr (notify msg) then notify msg else None);
                        timestamp = mulThousand toNumber (messageTimestamp msg)
                    in (case remoteJid k of
                          None \<Rightarrow> Inl (DatabaseError NotNullFailed)
                        | Some jid \<Rightarrow>
                           (case saveMessage (database b) (key_id k) jid False messageContent
                                   timestamp ''text'' ''received'' contactName
                                   (Some ''real-time'') of
                              Inl e \<Rightarrow> Inl (DatabaseError e)
                            | Inr db' \<Rightarrow>
                               let contact = getContact db' jid;
                                   messageType = getMessageType msg
                               in Inr (sendToFrontend ''newMessage''
                                    (NewMessage \<lparr>nm_id = key_id k, nm_content = messageContent,
                                       nm_timestamp = timestamp, nm_type = messageType,
                                       nm_from = (if fromMe k then ''me'' else jid),
                                       nm_fromMe = fromMe k, nm_chatJid = jid,
                                       nm_contactName = contactName,
                                       nm_avatarBase64 = (case contact of None \<Rightarrow> None
                                          | Some ct \<Rightarrow> ct_avatar_base64 ct),
                                       nm_senderName = contactName\<rparr>)
                                    (b\<lparr>database := db'\<rparr>)))))
            else Inr b))"

text \<open>The handler with its \<^verbatim>\<open>try\<close>/\<^verbatim>\<open>catch\<close>: an exception is logged; it is thrown before
  any write, so the state is the one the handler started with.\<close>

definition handleMessagesUpsert :: "(tsval \<Rightarrow> jsnum) \<Rightarrow> upsert \<Rightarrow> backend \<Rightarrow> backend" where
  "handleMessagesUpsert toNumber m b =
    (case handleMessagesUpsertBody toNumber m b of Inl error \<Rightarrow> b | Inr b' \<Rightarrow> b')"

section \<open>Consumer commands (backend.js)\<close>

text \<open>
  A parsed command \<^verbatim>\<open>{type, data}\<close>; \<open>None\<close> is a command without a \<^verbatim>\<open>type\<close>. The
  handlers of the recognized commands talk to the protocol client and are a parameter
  \<open>handlers\<close>, indexed by the command type.
\<close>

record 'd command =
  cmd_type :: "string option"
  cmd_data :: 'd

definition typeText :: "string option \<Rightarrow> string" where
  "typeText t = (case t of None \<Rightarrow> ''undefined'' | Some s \<Rightarrow> s)"

definition handleFrontendCommand ::
  "(string \<Rightarrow> 'd \<Rightarrow> backend \<Rightarrow> backend) \<Rightarrow> 'd command \<Rightarrow> backend \<Rightarrow> backend" where
  "handleFrontendCommand handlers parsedMessage b =
    (let ty = cmd_type parsedMessage; data = cmd_data parsedMessage in
     if ty = Some ''get_initial_chats'' then handlers ''get_initial_chats'' data b
     else if ty = Some ''send_message'' then handlers ''send_message'' data b
     else if ty = Some ''get_message_history'' then handlers ''get_message_history'' data b
     else if ty = Some ''typing_start'' then handlers ''typing_start'' data b
     else if ty = Some ''typing_stop'' then handlers ''typing_stop'' data b
     else if ty = Some ''health_check'' then handlers ''health_check'' data b
     else if ty = Some ''sync_contacts'' then handlers ''sync_contacts'' data b
     else if ty = Some ''get_contact_info'' then handlers ''get_contact_info'' data b
     else sendToFrontend ''error''
            (ErrorInfo ''unknown_command'' (''Unknown command: '' @ typeText ty)) b)"

text \<open>The command types of the \<^verbatim>\<open>switch\<close>.\<close>

definition recognizedCommands :: "string list" where
  "recognizedCommands = [''get_initial_chats'', ''send_message'', ''get_message_history'',
     ''typing_start'', ''typing_stop'', ''health_check'', ''sync_contacts'',
     ''get_contact_info'']"

text \<open>The store right after \<^verbatim>\<open>createTables\<close> on a new database file.\<close>

definition emptyStore :: store where
  "emptyStore = \<lparr>tbl_chats = Map.empty, tbl_messages = Map.empty, tbl_contacts = Map.empty\<rparr>"

section \<open>Predicates used in the statements\<close>

text \<open>The timestamp value that \<^verbatim>\<open>getMessageTimestamp\<close> reads from a message: the one of
  the history wrapper when that is truthy, else the top-level one.\<close>

definition carriesTimestamp :: "raw_msg \<Rightarrow> tsval \<Rightarrow> bool" where
  "carriesTimestamp msg t =
    (case message msg of
       None \<Rightarrow> messageTimestamp msg = Some t
     | Some w \<Rightarrow> w_messageTimestamp w = Some t
                 \<or> (\<not> truthyTs (w_messageTimestamp w) \<and> messageTimestamp msg = Some t))"

text \<open>Whether a conversation has a baseline cursor (the test behind \<^verbatim>\<open>isNewChat\<close>), its
  two cursors, and the value \<^verbatim>\<open>lastSyncTime\<close> that the reconciler filters against.\<close>

definition hasRow :: "store \<Rightarrow> string \<Rightarrow> bool" where
  "hasRow db jid = (tbl_chats db jid \<noteq> None)"

definition baselineOf :: "store \<Rightarrow> string \<Rightarrow> int option" where
  "baselineOf db jid =
    (case tbl_chats db jid of None \<Rightarrow> None | Some h \<Rightarrow> c_history_baseline_timestamp h)"

definition lastSyncOf :: "store \<Rightarrow> string \<Rightarrow> int option" where
  "lastSyncOf db jid =
    (case tbl_chats db jid of None \<Rightarrow> None | Some h \<Rightarrow> c_last_sync_timestamp h)"

definition hasBaseline :: "store \<Rightarrow> string \<Rightarrow> bool" where
  "hasBaseline db jid = truthyInt (baselineOf db jid)"

definition lastSyncCursor :: "store \<Rightarrow> string \<Rightarrow> int option" where
  "lastSyncCursor db jid = orInt (lastSyncOf db jid) (baselineOf db jid)"

text \<open>The ids of the message rows stored for a conversation.\<close>

definition storedIds :: "store \<Rightarrow> string \<Rightarrow> string set" where
  "storedIds db jid = {i. \<exists>r. tbl_messages db i = Some r \<and> m_chat_jid r = jid}"

text \<open>A delivered message can be stored when it has a key with a non-empty id and its
  timestamp is a number; \<open>messageId\<close> is that id.\<close>

definition messageId :: "raw_msg \<Rightarrow> string" where
  "messageId msg = (case getMessageKey msg of None \<Rightarrow> [] | Some k \<Rightarrow> key_id k)"

definition savable :: "int \<Rightarrow> raw_msg \<Rightarrow> bool" where
  "savable now msg = (messageId msg \<noteq> [] \<and> getMessageTimestamp now msg \<noteq> NaN)"

definition savableIds :: "int \<Rightarrow> raw_msg list \<Rightarrow> string set" where
  "savableIds now msgs = messageId ` {msg \<in> set msgs. savable now msg}"

text \<open>The delivered messages that pass the reconciler's filter against a cursor value.\<close>

definition newerThan :: "int \<Rightarrow> int option \<Rightarrow> raw_msg list \<Rightarrow> raw_msg list" where
  "newerThan now t msgs = filter (\<lambda>msg. greaterThan (getMessageTimestamp now msg) t) msgs"

text \<open>
  The log line of the loop body throws for the conversation \<open>c\<close> in the store \<open>db\<close>: the
  date is the timestamp of the last listed message of a conversation without baseline, and
  \<^verbatim>\<open>lastSyncTime\<close> of a conversation with baseline that is delivered with newer messages.
  \<open>dueIds\<close> are the ids of the delivered messages that the pass is to store.
\<close>

definition dateThrows :: "int \<Rightarrow> store \<Rightarrow> chat \<Rightarrow> bool" where
  "dateThrows now db c =
    (if hasBaseline db (chat_id c)
     then newerThan now (lastSyncCursor db (chat_id c)) (chat_messages c) \<noteq> []
          \<and> \<not> validDate (nullableNum (lastSyncCursor db (chat_id c)))
     else chat_messages c \<noteq> []
          \<and> \<not> validDate (getMessageTimestamp now (last (chat_messages c))))"

definition dueIds :: "int \<Rightarrow> store \<Rightarrow> chat \<Rightarrow> string set" where
  "dueIds now db c =
    (if hasBaseline db (chat_id c)
     then savableIds now (newerThan now (lastSyncCursor db (chat_id c)) (chat_messages c))
     else savableIds now (chat_messages c))"

text \<open>The store without the rows of the conversation \<open>jid\<close>: its row in the conversation
  table, its messages, and its row in the contact table.\<close>

definition withoutChat :: "string \<Rightarrow> store \<Rightarrow> store" where
  "withoutChat jid db =
    \<lparr>tbl_chats = (tbl_chats db)(jid := None),
     tbl_messages = cascadeDelete jid (tbl_messages db),
     tbl_contacts = (tbl_contacts db)(jid := None)\<rparr>"

text \<open>The \<^verbatim>\<open>saveMessage\<close> call that \<^verbatim>\<open>saveMessagesFromHistory\<close> makes for a message with a
  key id throws in the store \<open>db\<close>.\<close>

definition persistFails ::
  "int \<Rightarrow> string \<Rightarrow> string option \<Rightarrow> string \<Rightarrow> raw_msg \<Rightarrow> store \<Rightarrow> bool" where
  "persistFails now chatId chatName collectionSession msg db =
    (case getMessageKey msg of
       None \<Rightarrow> False
     | Some k \<Rightarrow> key_id k \<noteq> [] \<and>
         isl (saveMessage db (key_id k) chatId (fromMe k)
                (orDefault (getDisplayMessage msg) ''[Message content unavailable]'')
                (getMessageTimestamp now msg) (getMessageType msg)
                (if fromMe k then ''sent'' else ''received'')
                (Some (orDefault (pushName msg) (orDefault (participant msg)
                   (orDefault chatName ''Unknown''))))
                (Some collectionSession)))"


section \<open>Sample inputs\<close>

text \<open>A flat text message with a top-level key and an epoch-seconds number as timestamp,
  and the backend right after start on a new database with no consumer connected.\<close>

definition textContent :: "string \<Rightarrow> content" where
  "textContent txt =
    \<lparr>conversation = Some txt, extendedTextMessage = None, imageMessage = None,
     videoMessage = None, audioMessage = False, documentMessage = None, stickerMessage = False,
     locationMessage = False, liveLocationMessage = False, contactMessage = False,
     contactsArrayMessage = False, groupInviteMessage = False, buttonsMessage = False,
     templateMessage = False, listMessage = False, reactionMessage = False,
     pollCreationMessage = False, pollUpdateMessage = False\<rparr>"

definition textMessage :: "string \<Rightarrow> string \<Rightarrow> int \<Rightarrow> string \<Rightarrow> raw_msg" where
  "textMessage mid jid secs txt =
    \<lparr>key = Some \<lparr>key_id = mid, fromMe = False, remoteJid = Some jid\<rparr>,
     message = Some \<lparr>w_content = textContent txt, w_message = None,
                      w_messageTimestamp = None, w_key = None\<rparr>,
     messageTimestamp = Some (TNumber (Num secs)), pushName = None, participant = None,
     notify = None\<rparr>"

definition freshBackend :: backend where
  "freshBackend = \<lparr>database = emptyStore, initialChatsPayload = None,
     clientIsWaitingForChats = False, clientSocket = None, outbox = []\<rparr>"

text \<open>A store with the two conversations A and B and no messages.\<close>

definition twoChats :: store where
  "twoChats = saveChat (saveChat emptyStore ''A'' None None None None ''text'' None)
                 ''B'' None None None None ''text'' None"

text \<open>Deliveries for the conversation A: a first sync that lists m1 before m2, a later
  sync with m2 and m3, and a first sync that lists the most recent message first.\<close>

definition firstSyncChat :: chat where
  "firstSyncChat = \<lparr>chat_id = ''A'', chat_name = None,
     chat_messages = [textMessage ''m1'' ''A'' 100 ''one'', textMessage ''m2'' ''A'' 200 ''two''],
     chat_unreadCount = None\<rparr>"

definition recentFirstChat :: chat where
  "recentFirstChat = \<lparr>chat_id = ''A'', chat_name = None,
     chat_messages = [textMessage ''m2'' ''A'' 200 ''two'', textMessage ''m1'' ''A'' 100 ''one''],
     chat_unreadCount = None\<rparr>"

definition progressiveChat :: chat where
  "progressiveChat = \<lparr>chat_id = ''A'', chat_name = None,
     chat_messages = [textMessage ''m2'' ''A'' 200 ''two'', textMessage ''m3'' ''A'' 300 ''three''],
     chat_unreadCount = None\<rparr>"

definition firstDelivery :: history_item where
  "firstDelivery = \<lparr>item_chats = [recentFirstChat], isLatest = True\<rparr>"

definition laterDelivery :: history_item where
  "laterDelivery = \<lparr>item_chats = [\<lparr>chat_id = ''A'', chat_name = None,
       chat_messages = [textMessage ''m3'' ''A'' 300 ''three''], chat_unreadCount = None\<rparr>],
     isLatest = True\<rparr>"

text \<open>
  A store with the conversation A only; a message whose timestamp is a string that is not
  a number, and a conversation X that lists it last; a history message, which has its key
  and timestamp inside the wrapper and no top-level key; a conversation B delivered with
  that message, and a conversation C.
\<close>

definition oneChat :: store where
  "oneChat = saveChat emptyStore ''A'' None None None None ''text'' None"

definition unparsableMessage :: raw_msg where
  "unparsableMessage = (textMessage ''mx'' ''A'' 0 ''bad'')\<lparr>messageTimestamp := Some (TString ''abc'')\<rparr>"

definition historyWrapped :: raw_msg where
  "historyWrapped =
    \<lparr>key = None,
     message = Some \<lparr>w_content = textContent [], w_message = Some (textContent ''hello''),
                      w_messageTimestamp = Some (TNumber (Num 150)),
                      w_key = Some \<lparr>key_id = ''h1'', fromMe = False, remoteJid = Some ''B''\<rparr>\<rparr>,
     messageTimestamp = None, pushName = None, participant = None, notify = None\<rparr>"

definition invalidDateChat :: chat where
  "invalidDateChat = \<lparr>chat_id = ''X'', chat_name = None,
     chat_messages = [textMessage ''x1'' ''X'' 100 ''ex'', unparsableMessage],
     chat_unreadCount = None\<rparr>"

definition wrappedChat :: chat where
  "wrappedChat = \<lparr>chat_id = ''B'', chat_name = None, chat_messages = [historyWrapped],
     chat_unreadCount = None\<rparr>"

definition thirdChat :: chat where
  "thirdChat = \<lparr>chat_id = ''C'', chat_name = None,
     chat_messages = [textMessage ''c1'' ''C'' 120 ''see''], chat_unreadCount = None\<rparr>"

section \<open>Timestamp normalization\<close>

lemma digitVal_digit: "d < 10 \<Longrightarrow> digitVal (char_of (48 + d)) = Some d"
  by (simp add: digitVal_def)

lemma isDigit_digit: "(d::nat) < 10 \<Longrightarrow> isDigit 10 (char_of (48 + d))"
  by (simp add: isDigit_def digitVal_digit)

lemma decimal_digits: "\<forall>c \<in> set (decimal n). isDigit 10 c"
proof (induction n rule: decimal.induct)
  case (1 n)
  show ?case
  proof (cases "n < 10")
    case True
    then show ?thesis by (subst decimal.simps) (simp add: isDigit_digit)
  next
    case False
    with 1 show ?thesis by (subst decimal.simps) (simp add: isDigit_digit)
  qed
qed

lemma decimal_nonempty: "decimal n \<noteq> []"
  by (subst decimal.simps) simp

lemma digitsValue_snoc:
  "digitsValue r (s @ [c]) = digitsValue r s * r + (case digitVal c of Some d \<Rightarrow> d | None \<Rightarrow> 0)"
  by (simp add: digitsValue_def)

lemma digitsValue_decimal: "digitsValue 10 (decimal n) = n"
proof (induction n rule: decimal.induct)
  case (1 n)
  show ?case
  proof (cases "n < 10")
    case True
    then show ?thesis by (subst decimal.simps) (simp add: digitsValue_def digitVal_digit)
  next
    case False
    with 1 have "digitsValue 10 (decimal (n div 10)) = n div 10" by simp
    with False show ?thesis
      by (subst decimal.simps) (simp add: digitsValue_snoc digitVal_digit)
  qed
qed

lemma parseDigits_decimal: "parseDigits 10 (decimal n) = Some (int n)"
proof -
  have tw: "takeWhile (isDigit 10) (decimal n) = decimal n"
    using decimal_digits by (simp add: takeWhile_eq_all_conv)
  show ?thesis unfolding parseDigits_def Let_def tw
    by (simp add: decimal_nonempty digitsValue_decimal)
qed

lemma not_digit_chars:
  "\<not> isDigit 10 CHR ''x''" "\<not> isDigit 10 CHR ''X''" "\<not> isDigit 10 CHR ''-''" "\<not> isDigit 10 CHR ''+''"
  by (simp_all add: isDigit_def digitVal_def)

lemma white_not_digit: "isWhite c \<Longrightarrow> \<not> isDigit 10 c"
  by (auto simp: isWhite_def isDigit_def digitVal_def Let_def)

lemma parseUnsigned_decimal: "parseUnsigned (decimal n) = Some (int n)"
proof -
  have "\<And>c d rest. decimal n = c # d # rest \<Longrightarrow> d \<noteq> CHR ''x'' \<and> d \<noteq> CHR ''X''"
    using decimal_digits[of n] not_digit_chars by auto
  then show ?thesis using parseDigits_decimal[of n]
    by (auto simp: parseUnsigned_def split: list.splits)
qed

lemma parseInt_decimal: "parseInt (decimal n) = Num (int n)"
proof -
  obtain c rest where cr: "decimal n = c # rest"
    using decimal_nonempty[of n] by (cases "decimal n") auto
  have dc: "isDigit 10 c" using decimal_digits[of n] cr by simp
  have nw: "\<not> isWhite c" using dc white_not_digit by blast
  have ns: "c \<noteq> CHR ''-''" "c \<noteq> CHR ''+''" using dc not_digit_chars by auto
  have "dropWhile isWhite (decimal n) = decimal n" using cr nw by simp
  then show ?thesis using cr ns parseUnsigned_decimal[of n]
    by (simp add: parseInt_def)
qed

lemma getMessageTimestamp_carried:
  assumes "carriesTimestamp msg t" "truthyTs (Some t)"
  shows "getMessageTimestamp now msg =
    (case t of TLong low high \<Rightarrow> Num ((high mod 2 ^ 32 * 4294967296 + low mod 2 ^ 32) * 1000)
      | TNumber n \<Rightarrow> times1000 n | TString s \<Rightarrow> times1000 (parseInt s) | TObject \<Rightarrow> Num now)"
proof (cases "message msg")
  case None
  with assms show ?thesis
    by (simp add: getMessageTimestamp_def carriesTimestamp_def split: tsval.splits)
next
  case (Some w)
  with assms show ?thesis
    by (auto simp: getMessageTimestamp_def carriesTimestamp_def split: tsval.splits)
qed

lemma sint_mod_word32: "sint (w :: 32 word) mod 4294967296 = uint w"
  by (simp add: uint_sint take_bit_eq_mod)

text \<open>
  C8 (as amended). \<^verbatim>\<open>getMessageTimestamp\<close> maps a non-zero epoch-seconds number \<open>n\<close> to
  \<open>n * 1000\<close>, the decimal string of \<open>k\<close> to \<open>k * 1000\<close>, and a Long object whose words
  are the signed readings of \<open>lw\<close> and \<open>hw\<close> to \<open>(hw * 2^32 + lw) * 1000\<close> with both
  words read as unsigned 32-bit values; each within the range where JavaScript numbers are
  exact integers.
\<close>

theorem getMessageTimestamp_formats:
  "(carriesTimestamp msg (TNumber (Num n)) \<and> n \<noteq> 0 \<and> \<bar>n\<bar> * 1000 < 2 ^ 53
      \<longrightarrow> getMessageTimestamp now msg = Num (n * 1000))
   \<and> (carriesTimestamp msg (TString (decimal k)) \<and> int k * 1000 < 2 ^ 53
      \<longrightarrow> getMessageTimestamp now msg = Num (int k * 1000))
   \<and> (carriesTimestamp msg (TLong (sint (lw :: 32 word)) (sint (hw :: 32 word)))
        \<and> (uint hw * 2 ^ 32 + uint lw) * 1000 < 2 ^ 53
      \<longrightarrow> getMessageTimestamp now msg = Num ((uint hw * 2 ^ 32 + uint lw) * 1000))"
proof (intro conjI impI)
  assume "carriesTimestamp msg (TNumber (Num n)) \<and> n \<noteq> 0 \<and> \<bar>n\<bar> * 1000 < 2 ^ 53"
  then show "getMessageTimestamp now msg = Num (n * 1000)"
    using getMessageTimestamp_carried[of msg "TNumber (Num n)" now] by simp
next
  assume "carriesTimestamp msg (TString (decimal k)) \<and> int k * 1000 < 2 ^ 53"
  then show "getMessageTimestamp now msg = Num (int k * 1000)"
    using getMessageTimestamp_carried[of msg "TString (decimal k)" now]
    by (simp add: decimal_nonempty parseInt_decimal)
next
  assume "carriesTimestamp msg (TLong (sint lw) (sint hw))
        \<and> (uint hw * 2 ^ 32 + uint lw) * 1000 < 2 ^ 53"
  then show "getMessageTimestamp now msg = Num ((uint hw * 2 ^ 32 + uint lw) * 1000)"
    using getMessageTimestamp_carried[of msg "TLong (sint lw) (sint hw)" now]
    by (simp add: sint_mod_word32)
qed

text \<open>The three formats at concrete messages.\<close>

theorem getMessageTimestamp_formats_witness:
  "getMessageTimestamp 5 \<lparr>key = None, message = None,
      messageTimestamp = Some (TNumber (Num 1700000000)), pushName = None, participant = None,
      notify = None\<rparr> = Num 1700000000000
   \<and> getMessageTimestamp 5 \<lparr>key = None, message = None,
      messageTimestamp = Some (TString ''1700000000''), pushName = None, participant = None,
      notify = None\<rparr> = Num 1700000000000
   \<and> getMessageTimestamp 5 \<lparr>key = None, message = None,
      messageTimestamp = Some (TLong (- 1) 1), pushName = None, participant = None,
      notify = None\<rparr> = Num 8589934591000"
proof -
  have d: "decimal 1700000000 = ''1700000000''"
    by (simp add: decimal.simps char_of_def bit_iff_odd)
  have w: "sint (- 1 :: 32 word) = - 1" "sint (1 :: 32 word) = 1"
    "uint (- 1 :: 32 word) = 4294967295" "uint (1 :: 32 word) = 1"
    by (simp_all add: uint_word_ariths)
  show ?thesis
    using getMessageTimestamp_formats [where msg = "\<lparr>key = None, message = None,
        messageTimestamp = Some (TNumber (Num 1700000000)), pushName = None,
        participant = None, notify = None\<rparr>" and n = 1700000000 and now = 5]
      getMessageTimestamp_formats [where msg = "\<lparr>key = None, message = None,
        messageTimestamp = Some (TString ''1700000000''), pushName = None,
        participant = None, notify = None\<rparr>" and k = 1700000000 and now = 5]
      getMessageTimestamp_formats [where msg = "\<lparr>key = None, message = None,
        messageTimestamp = Some (TLong (- 1) 1), pushName = None,
        participant = None, notify = None\<rparr>" and lw = "- 1" and hw = 1 and now = 5]
    by (simp add: carriesTimestamp_def d w)
qed

text \<open>
  C8 as stated fails for the epoch-seconds number 0: it is falsy, so the function returns
  the clock reading instead of \<open>0 * 1000\<close>.
\<close>

theorem number_zero_counterexample:
  "getMessageTimestamp 1700000000000 \<lparr>key = None, message = None,
      messageTimestamp = Some (TNumber (Num 0)), pushName = None, participant = None,
      notify = None\<rparr> \<noteq> Num (0 * 1000)"
  by (simp add: getMessageTimestamp_def)

section \<open>The store\<close>

lemma saveMessage_result:
  assumes "saveMessage db i c f ct ts ty st sn cs = Inr db'"
  shows "\<exists>t r. ts = Num t \<and> tbl_chats db c = Some r
     \<and> tbl_messages db' = (tbl_messages db)(i \<mapsto>
         \<lparr>m_chat_jid = c, m_from_me = f, m_message_type = ty, m_content = ct, m_timestamp = t,
          m_status = st, m_collection_session = cs\<rparr>)
     \<and> tbl_chats db' = (tbl_chats db)(c \<mapsto>
         r\<lparr>c_last_message_id := Some i, c_last_message_timestamp := Some t,
           c_last_message_type := Some ty,
           c_last_message_from := Some (if f then ''me'' else c),
           c_name := (if truthyStr sn \<and> \<not> f then sn else c_name r)\<rparr>)"
  using assms
  by (cases ts) (auto simp: saveMessage_def saveContact_def Let_def split: option.splits if_splits)

text \<open>
  C4 (as amended). The messages table is keyed by the message id alone: a successful
  \<^verbatim>\<open>saveMessage\<close> puts the row for its conversation under the id \<open>i\<close>, replacing whatever
  row was stored under \<open>i\<close>, and leaves the rows under all other ids as they were.
\<close>

theorem saveMessage_keyed_by_id:
  assumes "saveMessage db i c f ct ts ty st sn cs = Inr db'"
  shows "(\<exists>r. tbl_messages db' i = Some r \<and> m_chat_jid r = c \<and> m_content r = ct)
       \<and> (\<forall>j. j \<noteq> i \<longrightarrow> tbl_messages db' j = tbl_messages db j)"
  using saveMessage_result[OF assms] by auto

text \<open>A message saved into the store with the conversations A and B.\<close>

theorem saveMessage_keyed_by_id_witness:
  "\<exists>db'. saveMessage twoChats ''m1'' ''A'' False ''hello'' (Num 100000) ''text'' ''received'' None
       (Some ''real-time'') = Inr db'
     \<and> (\<exists>r. tbl_messages db' ''m1'' = Some r \<and> m_chat_jid r = ''A'' \<and> m_content r = ''hello'')
     \<and> (\<forall>j. j \<noteq> ''m1'' \<longrightarrow> tbl_messages db' j = tbl_messages twoChats j)"
proof -
  obtain db' where s: "saveMessage twoChats ''m1'' ''A'' False ''hello'' (Num 100000) ''text''
      ''received'' None (Some ''real-time'') = Inr db'"
    by (simp add: saveMessage_def twoChats_def saveChat_def emptyStore_def)
  show ?thesis using saveMessage_keyed_by_id [OF s] s by blast
qed

text \<open>
  C4 as stated fails: after the id m1 is saved for conversation A and then for
  conversation B, the table holds one row, under m1, and it is the row of B.
\<close>

theorem same_id_two_chats_counterexample:
  "case saveMessage twoChats ''m1'' ''A'' False ''hello'' (Num 100000) ''text'' ''received'' None None of
     Inl e \<Rightarrow> False
   | Inr db1 \<Rightarrow>
      (case saveMessage db1 ''m1'' ''B'' False ''world'' (Num 200000) ''text'' ''received'' None None of
         Inl e \<Rightarrow> False
       | Inr db2 \<Rightarrow> dom (tbl_messages db2) = {''m1''}
           \<and> map_option m_chat_jid (tbl_messages db2 ''m1'') = Some ''B''
           \<and> map_option m_content (tbl_messages db2 ''m1'') = Some ''world'')"
  by (simp add: saveMessage_def twoChats_def saveChat_def emptyStore_def)

text \<open>
  C5 at its failing input: conversation A has the stored message m1; \<^verbatim>\<open>saveChat\<close> for A,
  which is not the retention sweep, leaves the conversation row and removes the message.
\<close>

theorem saveChat_cascade_deletes_messages:
  "case saveMessage (saveChat emptyStore ''A'' None None None None ''text'' None)
          ''m1'' ''A'' False ''hello'' (Num 1700000000000) ''text'' ''received'' None None of
     Inl e \<Rightarrow> False
   | Inr db \<Rightarrow> tbl_messages db ''m1'' \<noteq> None
        \<and> tbl_messages (saveChat db ''A'' (Some ''Alice'') None None None ''text'' None) ''m1'' = None
        \<and> tbl_chats (saveChat db ''A'' (Some ''Alice'') None None None ''text'' None) ''A'' \<noteq> None"
  by (simp add: saveMessage_def saveChat_def emptyStore_def cascadeDelete_def)

text \<open>The retention sweep itself removes the messages older than six months of thirty days
  and nothing else.\<close>

lemma cleanup_effect:
  "tbl_chats (cleanup now db) = tbl_chats db"
  "tbl_contacts (cleanup now db) = tbl_contacts db"
  "tbl_messages (cleanup now db) k =
     (case tbl_messages db k of None \<Rightarrow> None
      | Some r \<Rightarrow> if m_timestamp r < now - 15552000000 then None else Some r)"
  by (simp_all add: cleanup_def sixMonths_def split: option.splits)

subsection \<open>Effect of the store operations on rows, cursors and stored ids\<close>

lemma saveMessage_fails_iff:
  "(\<exists>e. saveMessage db i c f ct ts ty st sn cs = Inl e) \<longleftrightarrow> (ts = NaN \<or> tbl_chats db c = None)"
  by (cases ts) (auto simp: saveMessage_def Let_def split: option.splits)

lemma saveMessage_cursors:
  assumes "saveMessage db i c f ct ts ty st sn cs = Inr db'"
  shows "baselineOf db' j = baselineOf db j \<and> lastSyncOf db' j = lastSyncOf db j
    \<and> hasRow db' j = hasRow db j"
proof -
  from saveMessage_result[OF assms] obtain t r where
    r: "tbl_chats db c = Some r" and
    c: "tbl_chats db' = (tbl_chats db)(c \<mapsto>
         r\<lparr>c_last_message_id := Some i, c_last_message_timestamp := Some t,
           c_last_message_type := Some ty,
           c_last_message_from := Some (if f then ''me'' else c),
           c_name := (if truthyStr sn \<and> \<not> f then sn else c_name r)\<rparr>)"
    by blast
  show ?thesis
    by (cases "j = c") (simp_all add: baselineOf_def lastSyncOf_def hasRow_def r c)
qed

lemma saveMessage_storedIds:
  assumes "saveMessage db i c f ct ts ty st sn cs = Inr db'"
  shows "storedIds db' c = insert i (storedIds db c)"
  using saveMessage_result[OF assms]
  by (auto simp: storedIds_def)

lemma saveHistoryMessage_savable:
  assumes "savable now msg" "hasRow db cid"
  shows "\<exists>db'. saveHistoryMessage now cid cn sess msg (db, a, b) = (db', Suc a, b)
      \<and> storedIds db' cid = insert (messageId msg) (storedIds db cid)
      \<and> baselineOf db' cid = baselineOf db cid \<and> lastSyncOf db' cid = lastSyncOf db cid
      \<and> hasRow db' cid"
proof -
  from assms(1) obtain k where k: "getMessageKey msg = Some k" "key_id k \<noteq> []"
    "messageId msg = key_id k"
    by (auto simp: savable_def messageId_def split: option.splits)
  from assms have nf: "\<not> (\<exists>e. saveMessage db (key_id k) cid (fromMe k)
       (orDefault (getDisplayMessage msg) ''[Message content unavailable]'')
       (getMessageTimestamp now msg) (getMessageType msg)
       (if fromMe k then ''sent'' else ''received'')
       (Some (orDefault (pushName msg) (orDefault (participant msg) (orDefault cn ''Unknown''))))
       (Some sess) = Inl e)"
    unfolding saveMessage_fails_iff by (simp add: savable_def hasRow_def)
  then obtain db' where s: "saveMessage db (key_id k) cid (fromMe k)
       (orDefault (getDisplayMessage msg) ''[Message content unavailable]'')
       (getMessageTimestamp now msg) (getMessageType msg)
       (if fromMe k then ''sent'' else ''received'')
       (Some (orDefault (pushName msg) (orDefault (participant msg) (orDefault cn ''Unknown''))))
       (Some sess) = Inr db'"
    by (meson sum.exhaust)
  have "saveHistoryMessage now cid cn sess msg (db, a, b) = (db', Suc a, b)"
    using k s by (simp add: saveHistoryMessage_def Let_def)
  with saveMessage_storedIds[OF s] saveMessage_cursors[OF s, of cid] k assms(2)
  show ?thesis by simp
qed

lemma saveHistoryMessage_unsavable:
  assumes "\<not> savable now msg"
  shows "saveHistoryMessage now cid cn sess msg (db, a, b) = (db, a, Suc b)"
proof (cases "getMessageKey msg")
  case None
  then show ?thesis by (simp add: saveHistoryMessage_def Let_def)
next
  case (Some k)
  show ?thesis
  proof (cases "key_id k = []")
    case True
    with Some show ?thesis by (simp add: saveHistoryMessage_def Let_def)
  next
    case False
    with Some assms have "getMessageTimestamp now msg = NaN"
      by (simp add: savable_def messageId_def)
    with Some False show ?thesis
      by (simp add: saveHistoryMessage_def Let_def saveMessage_def)
  qed
qed

lemma saveHistoryLoop_Cons:
  "saveHistoryLoop now cid cn sess (m # ms) st =
   saveHistoryLoop now cid cn sess ms (saveHistoryMessage now cid cn sess m st)"
  by (simp add: saveHistoryLoop_def)

lemma saveHistoryLoop_Nil: "saveHistoryLoop now cid cn sess [] st = st"
  by (simp add: saveHistoryLoop_def)

lemma savableIds_Cons:
  "savableIds now (m # ms) = (if savable now m then insert (messageId m) (savableIds now ms)
                              else savableIds now ms)"
  by (auto simp: savableIds_def)

lemma saveHistoryLoop_effect:
  assumes "hasRow db cid"
  shows "storedIds (fst (saveHistoryLoop now cid cn sess msgs (db, a, b))) cid
           = storedIds db cid \<union> savableIds now msgs
       \<and> baselineOf (fst (saveHistoryLoop now cid cn sess msgs (db, a, b))) cid = baselineOf db cid
       \<and> lastSyncOf (fst (saveHistoryLoop now cid cn sess msgs (db, a, b))) cid = lastSyncOf db cid
       \<and> hasRow (fst (saveHistoryLoop now cid cn sess msgs (db, a, b))) cid"
  using assms
proof (induction msgs arbitrary: db a b)
  case Nil
  then show ?case by (simp add: saveHistoryLoop_Nil savableIds_def)
next
  case (Cons m ms)
  show ?case
  proof (cases "savable now m")
    case True
    from saveHistoryMessage_savable[OF True Cons.prems, of cn sess a b]
    obtain db' where d: "saveHistoryMessage now cid cn sess m (db, a, b) = (db', Suc a, b)"
      "storedIds db' cid = insert (messageId m) (storedIds db cid)"
      "baselineOf db' cid = baselineOf db cid" "hasRow db' cid"
      "lastSyncOf db' cid = lastSyncOf db cid"
      by blast
    from Cons.IH[OF d(4), of "Suc a" b] d True show ?thesis
      by (simp add: saveHistoryLoop_Cons savableIds_Cons)
  next
    case False
    from Cons.IH[OF Cons.prems, of a "Suc b"] False show ?thesis
      by (simp add: saveHistoryLoop_Cons savableIds_Cons saveHistoryMessage_unsavable)
  qed
qed

lemma saveChat_effect:
  "hasRow (saveChat db jid n l t a ty f) jid"
  "baselineOf (saveChat db jid n l t a ty f) jid = None"
  "lastSyncOf (saveChat db jid n l t a ty f) jid = None"
  "storedIds (saveChat db jid n l t a ty f) jid
     = (if hasRow db jid then {} else storedIds db jid)"
  by (auto simp: saveChat_def baselineOf_def lastSyncOf_def storedIds_def cascadeDelete_def
           hasRow_def
           split: option.splits)

lemma saveContact_effect:
  "hasRow (saveContact db j n p a) = hasRow db"
  "baselineOf (saveContact db j n p a) = baselineOf db"
  "lastSyncOf (saveContact db j n p a) = lastSyncOf db"
  "storedIds (saveContact db j n p a) = storedIds db"
  by (auto simp: saveContact_def baselineOf_def lastSyncOf_def storedIds_def hasRow_def
        fun_eq_iff)

lemma setChatHistoryBaseline_effect:
  "storedIds (setChatHistoryBaseline db jid ts) = storedIds db"
  "hasRow (setChatHistoryBaseline db jid ts) j = hasRow db j"
  "hasRow db jid \<Longrightarrow> baselineOf (setChatHistoryBaseline db jid ts) jid = sqlInt ts"
  by (auto simp: setChatHistoryBaseline_def baselineOf_def storedIds_def hasRow_def fun_eq_iff
           split: option.splits)

lemma updateChatSyncTimestamp_effect:
  "storedIds (updateChatSyncTimestamp db jid ts) = storedIds db"
  "baselineOf (updateChatSyncTimestamp db jid ts) = baselineOf db"
  "hasRow (updateChatSyncTimestamp db jid ts) j = hasRow db j"
  "hasRow db jid \<Longrightarrow> lastSyncOf (updateChatSyncTimestamp db jid ts) jid = sqlInt ts"
  by (auto simp: updateChatSyncTimestamp_def baselineOf_def lastSyncOf_def storedIds_def
        hasRow_def fun_eq_iff
           split: option.splits)

lemma saveMessagesFromHistory_fst:
  "chat_messages c \<noteq> [] \<Longrightarrow>
   fst (saveMessagesFromHistory now c sess db)
     = fst (saveHistoryLoop now (chat_id c) (chat_name c) sess (chat_messages c) (db, 0, 0))"
  by (simp add: saveMessagesFromHistory_def split: prod.splits)

lemma isNewChat_iff:
  "(case getChatHistoryInfo db jid of None \<Rightarrow> True
     | Some h \<Rightarrow> \<not> truthyInt (c_history_baseline_timestamp h)) = (\<not> hasBaseline db jid)"
  by (simp add: getChatHistoryInfo_def hasBaseline_def baselineOf_def truthyInt_def
           split: option.splits)

lemma lastSyncTime_eq:
  "(case getChatHistoryInfo db jid of None \<Rightarrow> None
     | Some h \<Rightarrow> orInt (c_last_sync_timestamp h) (c_history_baseline_timestamp h))
   = lastSyncCursor db jid"
  by (simp add: getChatHistoryInfo_def lastSyncCursor_def lastSyncOf_def baselineOf_def
        orInt_def truthyInt_def split: option.splits)

lemma hasBaseline_row: "hasBaseline db jid \<Longrightarrow> hasRow db jid"
  by (auto simp: hasBaseline_def baselineOf_def truthyInt_def hasRow_def split: option.splits)

lemma filter_savable:
  "savableIds now (filter (\<lambda>m. greaterThan (getMessageTimestamp now m) t) msgs)
   = messageId ` {m \<in> set msgs. messageId m \<noteq> [] \<and> greaterThan (getMessageTimestamp now m) t}"
proof -
  have "\<And>m. greaterThan (getMessageTimestamp now m) t \<Longrightarrow> getMessageTimestamp now m \<noteq> NaN"
    by (case_tac "getMessageTimestamp now m") auto
  then show ?thesis by (auto simp: savableIds_def savable_def)
qed

lemma newerThan_eq:
  "filter (\<lambda>msg. greaterThan (getMessageTimestamp now msg) t) msgs = newerThan now t msgs"
  by (simp add: newerThan_def)

lemma newerThan_Nil: "newerThan now t [] = []"
  by (simp add: newerThan_def)

lemma savableIds_Nil: "savableIds now [] = {}"
  by (simp add: savableIds_def)

lemma saveContact_chats: "tbl_chats (saveContact db j n p a) = tbl_chats db"
  by (simp add: saveContact_def)

lemma saveChatAndContact_effect:
  "hasRow (saveChatAndContact c sm db) (chat_id c)"
  "baselineOf (saveChatAndContact c sm db) (chat_id c) = None"
  "lastSyncOf (saveChatAndContact c sm db) (chat_id c) = None"
  "storedIds (saveChatAndContact c sm db) (chat_id c)
     = (if hasRow db (chat_id c) then {} else storedIds db (chat_id c))"
  by (simp_all add: saveChatAndContact_def chatEntry_def Let_def saveContact_effect saveChat_effect)

lemma reconcileChat_throws:
  "(fst (reconcileChat now c sm (db, chats)) = None) = (\<not> dateThrows now db c)"
  by (cases "hasBaseline db (chat_id c)")
     (simp_all add: reconcileChat_def syncMessages_def Let_def isNewChat_iff lastSyncTime_eq
        newerThan_eq newerThan_Nil dateThrows_def)

lemma reconcileChat_new:
  assumes "\<not> hasBaseline db (chat_id c)" "chat_messages c \<noteq> []"
    "validDate (getMessageTimestamp now (last (chat_messages c)))"
  shows "baselineOf (fst (snd (reconcileChat now c sm (db, chats)))) (chat_id c)
           = sqlInt (getMessageTimestamp now (last (chat_messages c)))
       \<and> storedIds (fst (snd (reconcileChat now c sm (db, chats)))) (chat_id c)
           = (if hasRow db (chat_id c) then {} else storedIds db (chat_id c))
             \<union> savableIds now (chat_messages c)"
  using assms
  by (simp add: reconcileChat_def syncMessages_def Let_def isNewChat_iff
        saveMessagesFromHistory_fst updateChatSyncTimestamp_effect saveHistoryLoop_effect
        setChatHistoryBaseline_effect saveChatAndContact_effect)

lemma reconcileChat_lastSync:
  assumes "\<not> dateThrows now db c"
  shows "lastSyncOf (fst (snd (reconcileChat now c sm (db, chats)))) (chat_id c) = Some now
   \<and> hasRow (fst (snd (reconcileChat now c sm (db, chats)))) (chat_id c)"
  using assms
  by (cases "hasBaseline db (chat_id c)")
     (auto simp: reconcileChat_def syncMessages_def Let_def isNewChat_iff lastSyncTime_eq
        newerThan_eq newerThan_Nil dateThrows_def
        saveMessagesFromHistory_fst updateChatSyncTimestamp_effect saveHistoryLoop_effect
        setChatHistoryBaseline_effect saveChatAndContact_effect)

lemma reconcileChat_known_baseline:
  assumes "hasBaseline db (chat_id c)"
  shows "baselineOf (fst (snd (reconcileChat now c sm (db, chats)))) (chat_id c) = None"
  using assms
  by (simp add: reconcileChat_def syncMessages_def Let_def isNewChat_iff
        saveMessagesFromHistory_fst updateChatSyncTimestamp_effect saveHistoryLoop_effect
        setChatHistoryBaseline_effect saveChatAndContact_effect)

lemma reconcileChat_known:
  assumes "hasBaseline db (chat_id c)" "\<not> dateThrows now db c"
  shows "storedIds (fst (snd (reconcileChat now c sm (db, chats)))) (chat_id c)
         = savableIds now (newerThan now (lastSyncCursor db (chat_id c)) (chat_messages c))"
  using assms hasBaseline_row[OF assms(1)]
  by (auto simp: reconcileChat_def syncMessages_def Let_def isNewChat_iff lastSyncTime_eq
        newerThan_eq newerThan_Nil dateThrows_def savableIds_Nil
        saveMessagesFromHistory_fst updateChatSyncTimestamp_effect saveHistoryLoop_effect
        saveChatAndContact_effect)

lemma reconcileChat_due:
  assumes "\<not> dateThrows now db c"
  shows "dueIds now db c \<subseteq> storedIds (fst (snd (reconcileChat now c sm (db, chats)))) (chat_id c)"
proof (cases "hasBaseline db (chat_id c)")
  case True
  with reconcileChat_known[OF True assms] show ?thesis by (simp add: dueIds_def)
next
  case False
  show ?thesis
  proof (cases "chat_messages c = []")
    case True
    with False show ?thesis by (simp add: dueIds_def savableIds_Nil)
  next
    case ne: False
    with False assms have "validDate (getMessageTimestamp now (last (chat_messages c)))"
      by (simp add: dateThrows_def)
    from reconcileChat_new[OF False ne this] False show ?thesis
      by (simp add: dueIds_def)
  qed
qed

lemma processChatBody_throws:
  "(fst (processChatBody now c (db, chats)) = None)
   = ((\<exists>sm. lastMessageSummary now c = Inr sm) \<and> \<not> dateThrows now db c)"
  by (cases "lastMessageSummary now c") (simp_all add: processChatBody_def reconcileChat_throws)

lemma processChat_fst:
  assumes "lastMessageSummary now c = Inr sm"
  shows "fst (processChat now c (db, cs)) = fst (snd (reconcileChat now c sm (db, cs)))"
  using assms by (simp add: processChat_def processChatBody_def)

section \<open>The history reconciler\<close>

text \<open>
  C1 (as amended). When the loop body for a conversation does not throw, neither the
  TypeError of a first listed message without a key nor the RangeError of a log line whose
  date is not valid: a conversation without a baseline cursor that is delivered with
  messages gets as baseline the timestamp of the last listed message, and every delivered
  message with a non-empty id and a numeric timestamp is stored for it; for a conversation
  with a baseline cursor, the delivered messages with a non-empty id and a timestamp
  strictly greater than \<^verbatim>\<open>lastSyncTime\<close> are stored, and nothing else is added to the
  messages stored for the conversation.
\<close>

theorem history_classification:
  assumes "processChatBody now c (db, chats) = (None, db', chats')"
  shows "(\<not> hasBaseline db (chat_id c) \<and> chat_messages c \<noteq> [] \<longrightarrow>
            baselineOf db' (chat_id c)
              = sqlInt (getMessageTimestamp now (last (chat_messages c)))
            \<and> savableIds now (chat_messages c) \<subseteq> storedIds db' (chat_id c))
       \<and> (hasBaseline db (chat_id c) \<longrightarrow>
            savableIds now (newerThan now (lastSyncCursor db (chat_id c)) (chat_messages c))
              \<subseteq> storedIds db' (chat_id c)
            \<and> storedIds db' (chat_id c)
              \<subseteq> storedIds db (chat_id c)
                 \<union> savableIds now (newerThan now (lastSyncCursor db (chat_id c))
                      (chat_messages c)))"
proof -
  from assms have ok: "fst (processChatBody now c (db, chats)) = None" by simp
  then obtain sm where sm: "lastMessageSummary now c = Inr sm" and nt: "\<not> dateThrows now db c"
    by (auto simp: processChatBody_throws)
  from assms sm have d: "db' = fst (snd (reconcileChat now c sm (db, chats)))"
    by (simp add: processChatBody_def)
  have new: "\<not> hasBaseline db (chat_id c) \<Longrightarrow> chat_messages c \<noteq> [] \<Longrightarrow>
      validDate (getMessageTimestamp now (last (chat_messages c)))"
    using nt by (simp add: dateThrows_def)
  show ?thesis
    unfolding d
    using reconcileChat_new[of db c now sm chats] new
      reconcileChat_known[of db c now sm chats] nt
    by auto
qed

lemma textMessage_summary:
  "chat_messages c = textMessage i j t x # ms \<Longrightarrow> \<exists>sm. lastMessageSummary now c = Inr sm"
  by (simp add: lastMessageSummary_def textMessage_def)

lemma textMessage_savable:
  "savable now (textMessage i j t x) = (i \<noteq> [])" "messageId (textMessage i j t x) = i"
  "getMessageTimestamp now (textMessage i j t x) = (if t = 0 then Num now else Num (t * 1000))"
  by (simp_all add: savable_def messageId_def getMessageKey_def getMessageTimestamp_def
        textMessage_def)

lemma emptyStore_facts:
  "\<not> hasRow emptyStore j" "\<not> hasBaseline emptyStore j" "storedIds emptyStore j = {}"
  by (simp_all add: hasRow_def hasBaseline_def baselineOf_def storedIds_def emptyStore_def
        truthyInt_def)

lemmas eval_defs = processChat_def processChatBody_def lastMessageSummary_def reconcileChat_def
  syncMessages_def chatEntry_def saveChatAndContact_def validDate_def nullableNum_def
  Let_def getChatHistoryInfo_def saveChat_def saveContact_def setChatHistoryBaseline_def
  saveMessagesFromHistory_def saveHistoryLoop_def saveHistoryMessage_def saveMessage_def
  updateChatSyncTimestamp_def getMessageTimestamp_def getMessageKey_def getDisplayMessage_def
  getMessageType_def messageObj_def orDefault_def formatLastMessageContent_def orStr_def
  truthyInt_def orInt_def emptyStore_def textMessage_def textContent_def cascadeDelete_def

lemma textMessage_validDate:
  "\<bar>t\<bar> \<le> 8640000000000 \<Longrightarrow> t \<noteq> 0 \<Longrightarrow> validDate (getMessageTimestamp now (textMessage i j t x))"
  by (simp add: textMessage_savable validDate_def)

text \<open>
  The first-sync scenario on a new database, then the progressive-sync scenario.
\<close>

theorem history_classification_witness:
  "\<exists>db1 cs1 db2 cs2.
     processChatBody 250000 firstSyncChat (emptyStore, []) = (None, db1, cs1)
     \<and> \<not> hasBaseline emptyStore ''A''
     \<and> baselineOf db1 ''A'' = Some 200000
     \<and> {''m1'', ''m2''} \<subseteq> storedIds db1 ''A''
     \<and> processChatBody 400000 progressiveChat (db1, cs1) = (None, db2, cs2)
     \<and> hasBaseline db1 ''A''
     \<and> ''m3'' \<in> storedIds db2 ''A''
     \<and> storedIds db2 ''A'' \<subseteq> storedIds db1 ''A'' \<union> {''m3''}"
proof -
  obtain sm1 where s1: "lastMessageSummary 250000 firstSyncChat = Inr sm1"
    by (auto simp: lastMessageSummary_def firstSyncChat_def textMessage_def)
  have nt1: "\<not> dateThrows 250000 emptyStore firstSyncChat"
    by (simp add: dateThrows_def emptyStore_facts firstSyncChat_def textMessage_validDate)
  obtain e1 db1 cs1 where r1: "reconcileChat 250000 firstSyncChat sm1 (emptyStore, []) = (e1, db1, cs1)"
    by (cases "reconcileChat 250000 firstSyncChat sm1 (emptyStore, [])") blast
  from reconcileChat_throws[of 250000 firstSyncChat sm1 emptyStore "[]"] nt1 r1
  have e1: "e1 = None" by simp
  have p1: "processChatBody 250000 firstSyncChat (emptyStore, []) = (None, db1, cs1)"
    using s1 r1 e1 by (simp add: processChatBody_def)
  have ids: "savableIds 250000 (chat_messages firstSyncChat) = {''m1'', ''m2''}"
    by (simp add: savableIds_Cons savableIds_Nil textMessage_savable firstSyncChat_def insert_commute)
  from history_classification [OF p1] ids
  have c1: "baselineOf db1 ''A'' = Some 200000" "{''m1'', ''m2''} \<subseteq> storedIds db1 ''A''"
    by (simp_all add: firstSyncChat_def emptyStore_facts textMessage_savable)
  have h: "hasBaseline db1 ''A''" using c1 by (simp add: hasBaseline_def truthyInt_def)
  have "lastSyncOf (fst (snd (reconcileChat 250000 firstSyncChat sm1 (emptyStore, []))))
          (chat_id firstSyncChat) = Some 250000"
    using reconcileChat_lastSync[OF nt1] by blast
  then have ls: "lastSyncCursor db1 ''A'' = Some 250000"
    using r1 by (simp add: lastSyncCursor_def orInt_def truthyInt_def firstSyncChat_def)
  obtain sm2 where s2: "lastMessageSummary 400000 progressiveChat = Inr sm2"
    by (auto simp: lastMessageSummary_def progressiveChat_def textMessage_def)
  have nt2: "\<not> dateThrows 400000 db1 progressiveChat"
    using h ls by (simp add: dateThrows_def progressiveChat_def validDate_def nullableNum_def)
  obtain e2 db2 cs2 where r2: "reconcileChat 400000 progressiveChat sm2 (db1, cs1) = (e2, db2, cs2)"
    by (cases "reconcileChat 400000 progressiveChat sm2 (db1, cs1)") blast
  from reconcileChat_throws[of 400000 progressiveChat sm2 db1 cs1] nt2 r2
  have e2: "e2 = None" by simp
  have p2: "processChatBody 400000 progressiveChat (db1, cs1) = (None, db2, cs2)"
    using s2 r2 e2 by (simp add: processChatBody_def)
  have ids2: "savableIds 400000 (newerThan 400000 (Some 250000) (chat_messages progressiveChat))
      = {''m3''}"
    by (simp add: newerThan_def savableIds_Cons savableIds_Nil textMessage_savable
          progressiveChat_def)
  from history_classification [OF p2] h ls ids2
  have c2: "''m3'' \<in> storedIds db2 ''A''" "storedIds db2 ''A'' \<subseteq> storedIds db1 ''A'' \<union> {''m3''}"
    by (simp_all add: progressiveChat_def)
  from p1 p2 c1 h c2 emptyStore_facts(2)[of "''A''"] show ?thesis by blast
qed

text \<open>
  C1 as stated fails on the first-sync scenario: the delivered timestamps are 100000 and
  200000 milliseconds, the conversation has no baseline, and the baseline becomes 200000,
  the timestamp of the last listed message, not the minimum.
\<close>

theorem baseline_is_last_listed_counterexample:
  "getMessageTimestamp 250000 (textMessage ''m1'' ''A'' 100 ''one'') = Num 100000
   \<and> getMessageTimestamp 250000 (textMessage ''m2'' ''A'' 200 ''two'') = Num 200000
   \<and> \<not> hasBaseline emptyStore ''A''
   \<and> baselineOf (fst (processChat 250000 firstSyncChat (emptyStore, []))) ''A'' = Some 200000"
  by (simp add: eval_defs firstSyncChat_def hasBaseline_def baselineOf_def)

text \<open>
  C7 at its failing input: a first sync of A that lists m2 (200000) before m1 (100000).
  The stored summary of the conversation names m1 and its timestamp, not the most recent
  message m2, because each \<^verbatim>\<open>saveMessage\<close> of the pass overwrites the summary columns.
\<close>

theorem summary_overwritten:
  "getMessageTimestamp 250000 (hd (chat_messages recentFirstChat)) = Num 200000
   \<and> map_option c_last_message_id
      (tbl_chats (fst (processChat 250000 recentFirstChat (emptyStore, []))) ''A'')
     = Some (Some ''m1'')
   \<and> map_option c_last_message_timestamp
      (tbl_chats (fst (processChat 250000 recentFirstChat (emptyStore, []))) ''A'')
     = Some (Some 100000)"
  by (simp add: eval_defs recentFirstChat_def)

lemma handleHistorySet_database:
  "database (handleHistorySet now item b) = fst (fold (processChat now) (item_chats item) (database b, []))"
  by (simp add: handleHistorySet_def sendToFrontend_def Let_def split: prod.splits)

text \<open>
  C2 at its failing input: the same delivery of A processed at 250000 and again at 400000.
  After the first pass m1 and m2 are stored and the baseline is 100000; after the second
  pass no message of A is stored and the baseline is NULL.
\<close>

theorem identical_delivery_twice:
  "storedIds (database (handleHistorySet 250000 firstDelivery freshBackend)) ''A'' = {''m1'', ''m2''}
   \<and> baselineOf (database (handleHistorySet 250000 firstDelivery freshBackend)) ''A'' = Some 100000
   \<and> storedIds (database (handleHistorySet 400000 firstDelivery
         (handleHistorySet 250000 firstDelivery freshBackend))) ''A'' = {}
   \<and> baselineOf (database (handleHistorySet 400000 firstDelivery
         (handleHistorySet 250000 firstDelivery freshBackend))) ''A'' = None"
proof -
  define db1 where "db1 = database (handleHistorySet 250000 firstDelivery freshBackend)"
  define db2 where "db2 = database (handleHistorySet 400000 firstDelivery
         (handleHistorySet 250000 firstDelivery freshBackend))"
  obtain sm1 where s1: "lastMessageSummary 250000 recentFirstChat = Inr sm1"
    by (auto simp: lastMessageSummary_def recentFirstChat_def textMessage_def)
  obtain sm2 where s2: "lastMessageSummary 400000 recentFirstChat = Inr sm2"
    by (auto simp: lastMessageSummary_def recentFirstChat_def textMessage_def)
  have d1: "db1 = fst (snd (reconcileChat 250000 recentFirstChat sm1 (emptyStore, [])))"
    by (simp add: db1_def handleHistorySet_database firstDelivery_def freshBackend_def
          processChat_fst[OF s1])
  have d2: "db2 = fst (snd (reconcileChat 400000 recentFirstChat sm2 (db1, [])))"
    by (simp add: db2_def db1_def handleHistorySet_database firstDelivery_def
          processChat_fst[OF s2])
  have ids: "savableIds 250000 (chat_messages recentFirstChat) = {''m1'', ''m2''}"
    by (simp add: savableIds_Cons savableIds_Nil textMessage_savable recentFirstChat_def insert_commute)
  have nt1: "\<not> dateThrows 250000 emptyStore recentFirstChat"
    by (simp add: dateThrows_def emptyStore_facts recentFirstChat_def textMessage_validDate)
  have vd: "validDate (getMessageTimestamp 250000 (last (chat_messages recentFirstChat)))"
    by (simp add: recentFirstChat_def textMessage_validDate)
  have a: "baselineOf db1 ''A'' = Some 100000" "storedIds db1 ''A'' = {''m1'', ''m2''}"
    using reconcileChat_new[of emptyStore recentFirstChat 250000 sm1 "[]"] ids vd
    by (simp_all add: d1 emptyStore_facts recentFirstChat_def textMessage_savable)
  have h: "hasBaseline db1 (chat_id recentFirstChat)"
    using a by (simp add: hasBaseline_def truthyInt_def recentFirstChat_def)
  have "lastSyncOf db1 (chat_id recentFirstChat) = Some 250000"
    unfolding d1 using reconcileChat_lastSync[OF nt1] by blast
  then have ls: "lastSyncCursor db1 ''A'' = Some 250000"
    by (simp add: lastSyncCursor_def orInt_def truthyInt_def recentFirstChat_def)
  have nw: "newerThan 400000 (Some 250000) (chat_messages recentFirstChat) = []"
    by (simp add: newerThan_def textMessage_savable recentFirstChat_def)
  have nt2: "\<not> dateThrows 400000 db1 recentFirstChat"
    using h ls nw by (simp add: dateThrows_def recentFirstChat_def)
  have b: "storedIds db2 ''A'' = {}" "baselineOf db2 ''A'' = None"
    using reconcileChat_known[OF h nt2, of sm2 "[]"]
      reconcileChat_known_baseline[OF h, of 400000 sm2 "[]"] ls nw
    by (simp_all add: d2 recentFirstChat_def savableIds_Nil)
  from a b show ?thesis unfolding db1_def db2_def by simp
qed

text \<open>
  C3 at its failing input: A has the baseline 100000 from its first sync; a later delivery
  for A clears it while the last-sync cursor moves on.
\<close>

theorem baseline_cleared_by_later_delivery:
  "baselineOf (database (handleHistorySet 250000 firstDelivery freshBackend)) ''A'' = Some 100000
   \<and> baselineOf (database (handleHistorySet 280000 laterDelivery
         (handleHistorySet 250000 firstDelivery freshBackend))) ''A'' = None
   \<and> lastSyncOf (database (handleHistorySet 280000 laterDelivery
         (handleHistorySet 250000 firstDelivery freshBackend))) ''A'' = Some 280000"
  by (simp add: handleHistorySet_database firstDelivery_def laterDelivery_def freshBackend_def
        eval_defs recentFirstChat_def baselineOf_def lastSyncOf_def)

section \<open>Failures while a delivery is processed\<close>

text \<open>Skipping a message only moves the skipped counter.\<close>

lemma saveHistoryMessage_skipped_commute:
  "saveHistoryMessage now cid cn sess m (db, a, Suc b)
   = (case saveHistoryMessage now cid cn sess m (db, a, b) of (d, a', b') \<Rightarrow> (d, a', Suc b'))"
  by (simp add: saveHistoryMessage_def Let_def split: option.splits sum.splits)

lemma saveHistoryLoop_skipped_commute:
  "saveHistoryLoop now cid cn sess ms (db, a, Suc b)
   = (case saveHistoryLoop now cid cn sess ms (db, a, b) of (d, a', b') \<Rightarrow> (d, a', Suc b'))"
proof (induction ms arbitrary: db a b)
  case Nil
  then show ?case by (simp add: saveHistoryLoop_Nil)
next
  case (Cons m ms)
  obtain d a' b' where s: "saveHistoryMessage now cid cn sess m (db, a, b) = (d, a', b')"
    by (cases "saveHistoryMessage now cid cn sess m (db, a, b)") blast
  show ?case
    by (simp add: saveHistoryLoop_Cons saveHistoryMessage_skipped_commute s Cons.IH)
qed

lemma saveHistoryLoop_append:
  "saveHistoryLoop now cid cn sess (xs @ ys) st
   = saveHistoryLoop now cid cn sess ys (saveHistoryLoop now cid cn sess xs st)"
  by (simp add: saveHistoryLoop_def)

lemma persistFails_step:
  assumes "persistFails now cid cn sess msg db"
  shows "saveHistoryMessage now cid cn sess msg (db, a, b) = (db, a, Suc b)"
  using assms
  by (auto simp: persistFails_def saveHistoryMessage_def Let_def isl_def split: option.splits)

lemma message_failure_skipped:
  assumes "persistFails now cid cn sess msg (fst (saveHistoryLoop now cid cn sess xs st))"
  shows "saveHistoryLoop now cid cn sess (xs @ msg # ys) st
       = (case saveHistoryLoop now cid cn sess (xs @ ys) st of
            (db', saved, skipped) \<Rightarrow> (db', saved, Suc skipped))"
proof -
  obtain d a b where s: "saveHistoryLoop now cid cn sess xs st = (d, a, b)"
    by (cases "saveHistoryLoop now cid cn sess xs st") blast
  with assms have "persistFails now cid cn sess msg d" by simp
  from persistFails_step[OF this] s show ?thesis
    by (simp add: saveHistoryLoop_append saveHistoryLoop_Cons saveHistoryLoop_skipped_commute)
qed

subsection \<open>What one conversation's pass leaves alone\<close>

lemma saveHistoryMessage_frame:
  assumes "j \<noteq> cid"
  shows "tbl_chats (fst (saveHistoryMessage now cid cn sess m (db, a, b))) j = tbl_chats db j
       \<and> storedIds db j - {messageId m}
           \<subseteq> storedIds (fst (saveHistoryMessage now cid cn sess m (db, a, b))) j"
proof (cases "savable now m")
  case False
  then show ?thesis by (simp add: saveHistoryMessage_unsavable)
next
  case True
  then obtain k where k: "getMessageKey m = Some k" "key_id k \<noteq> []" "messageId m = key_id k"
    by (auto simp: savable_def messageId_def split: option.splits)
  show ?thesis
  proof (cases "saveMessage db (key_id k) cid (fromMe k)
       (orDefault (getDisplayMessage m) ''[Message content unavailable]'')
       (getMessageTimestamp now m) (getMessageType m)
       (if fromMe k then ''sent'' else ''received'')
       (Some (orDefault (pushName m) (orDefault (participant m) (orDefault cn ''Unknown''))))
       (Some sess)")
    case (Inl e)
    with k show ?thesis by (simp add: saveHistoryMessage_def Let_def)
  next
    case (Inr db')
    from saveMessage_result[OF Inr] assms
    have "tbl_chats db' j = tbl_chats db j" "storedIds db j - {key_id k} \<subseteq> storedIds db' j"
      by (auto simp: storedIds_def)
    with k Inr show ?thesis by (simp add: saveHistoryMessage_def Let_def)
  qed
qed

lemma saveHistoryLoop_frame:
  assumes "j \<noteq> cid"
  shows "tbl_chats (fst (saveHistoryLoop now cid cn sess msgs (db, a, b))) j = tbl_chats db j
       \<and> storedIds db j - messageId ` set msgs
           \<subseteq> storedIds (fst (saveHistoryLoop now cid cn sess msgs (db, a, b))) j"
proof (induction msgs arbitrary: db a b)
  case Nil
  then show ?case by (simp add: saveHistoryLoop_Nil)
next
  case (Cons m ms)
  obtain d a' b' where s: "saveHistoryMessage now cid cn sess m (db, a, b) = (d, a', b')"
    by (cases "saveHistoryMessage now cid cn sess m (db, a, b)") blast
  from saveHistoryMessage_frame[OF assms, of now cn sess m db a b] s
  have f: "tbl_chats d j = tbl_chats db j" "storedIds db j - {messageId m} \<subseteq> storedIds d j"
    by simp_all
  from Cons.IH[of d a' b'] f show ?case
    by (auto simp: saveHistoryLoop_Cons s)
qed

lemma saveMessagesFromHistory_frame:
  assumes "j \<noteq> chat_id c"
  shows "tbl_chats (fst (saveMessagesFromHistory now c sess db)) j = tbl_chats db j
       \<and> storedIds db j - messageId ` set (chat_messages c)
           \<subseteq> storedIds (fst (saveMessagesFromHistory now c sess db)) j"
proof (cases "chat_messages c = []")
  case True
  then show ?thesis by (simp add: saveMessagesFromHistory_def)
next
  case False
  with saveHistoryLoop_frame[OF assms, of now "chat_name c" sess "chat_messages c" db 0 0]
  show ?thesis by (simp add: saveMessagesFromHistory_fst)
qed

lemma saveChat_frame:
  assumes "j \<noteq> jid"
  shows "tbl_chats (saveChat db jid n l t a ty f) j = tbl_chats db j"
    "storedIds (saveChat db jid n l t a ty f) j = storedIds db j"
  using assms by (auto simp: saveChat_def storedIds_def cascadeDelete_def split: option.splits)

lemma setChatHistoryBaseline_frame:
  "j \<noteq> jid \<Longrightarrow> tbl_chats (setChatHistoryBaseline db jid ts) j = tbl_chats db j"
  by (simp add: setChatHistoryBaseline_def split: option.splits)

lemma updateChatSyncTimestamp_frame:
  "j \<noteq> jid \<Longrightarrow> tbl_chats (updateChatSyncTimestamp db jid ts) j = tbl_chats db j"
  by (simp add: updateChatSyncTimestamp_def split: option.splits)

lemma syncMessages_frame:
  assumes "j \<noteq> chat_id c"
  shows "tbl_chats (snd (syncMessages now c h db)) j = tbl_chats db j
       \<and> storedIds db j - messageId ` set (chat_messages c)
           \<subseteq> storedIds (snd (syncMessages now c h db)) j"
proof -
  let ?new = "c\<lparr>chat_messages := filter (\<lambda>msg. greaterThan (getMessageTimestamp now msg)
      (case h of None \<Rightarrow> None
       | Some h \<Rightarrow> orInt (c_last_sync_timestamp h) (c_history_baseline_timestamp h)))
      (chat_messages c)\<rparr>"
  have a: "j \<noteq> chat_id ?new" using assms by simp
  have sub: "messageId ` set (chat_messages ?new) \<subseteq> messageId ` set (chat_messages c)" by auto
  note f1 = saveMessagesFromHistory_frame[OF assms, of now "''initial-sync-'' @ showInt now"
      "setChatHistoryBaseline db (chat_id c) (getMessageTimestamp now (last (chat_messages c)))"]
  note f2 = saveMessagesFromHistory_frame[OF a, of now "''progressive-sync-'' @ showInt now" db]
  from f2 sub have f2': "storedIds db j - messageId ` set (chat_messages c)
      \<subseteq> storedIds (fst (saveMessagesFromHistory now ?new (''progressive-sync-'' @ showInt now) db)) j"
    by blast
  show ?thesis
    using f1 f2 f2' assms
    by (simp add: syncMessages_def Let_def setChatHistoryBaseline_frame
          setChatHistoryBaseline_effect)
qed

lemma syncMessages_then_frame:
  assumes "j \<noteq> chat_id c" "tbl_chats db2 j = tbl_chats db j" "storedIds db2 j = storedIds db j"
  shows "tbl_chats (fst (snd (case syncMessages now c h db2 of
            (Some e, db3) \<Rightarrow> (Some e, db3, X)
          | (None, db3) \<Rightarrow> (None, updateChatSyncTimestamp db3 (chat_id c) (Num now), X)))) j
         = tbl_chats db j"
    and "storedIds db j - messageId ` set (chat_messages c)
         \<subseteq> storedIds (fst (snd (case syncMessages now c h db2 of
            (Some e, db3) \<Rightarrow> (Some e, db3, X)
          | (None, db3) \<Rightarrow> (None, updateChatSyncTimestamp db3 (chat_id c) (Num now), X)))) j"
proof -
  obtain e db3 where s: "syncMessages now c h db2 = (e, db3)"
    by (cases "syncMessages now c h db2") blast
  from syncMessages_frame[OF assms(1), of now h db2] s assms(2,3)
  have f: "tbl_chats db3 j = tbl_chats db j"
    "storedIds db j - messageId ` set (chat_messages c) \<subseteq> storedIds db3 j"
    by simp_all
  show "tbl_chats (fst (snd (case syncMessages now c h db2 of
            (Some e, db3) \<Rightarrow> (Some e, db3, X)
          | (None, db3) \<Rightarrow> (None, updateChatSyncTimestamp db3 (chat_id c) (Num now), X)))) j
         = tbl_chats db j"
    using f assms(1)
    by (cases e) (simp_all add: s updateChatSyncTimestamp_frame)
  show "storedIds db j - messageId ` set (chat_messages c)
         \<subseteq> storedIds (fst (snd (case syncMessages now c h db2 of
            (Some e, db3) \<Rightarrow> (Some e, db3, X)
          | (None, db3) \<Rightarrow> (None, updateChatSyncTimestamp db3 (chat_id c) (Num now), X)))) j"
    using f assms(1)
    by (cases e) (simp_all add: s updateChatSyncTimestamp_effect)
qed

lemma saveChatAndContact_frame:
  assumes "j \<noteq> chat_id c"
  shows "tbl_chats (saveChatAndContact c sm db) j = tbl_chats db j"
    "storedIds (saveChatAndContact c sm db) j = storedIds db j"
  using assms
  by (simp_all add: saveChatAndContact_def chatEntry_def Let_def saveChat_frame saveContact_chats
        saveContact_effect)

lemma reconcileChat_frame:
  assumes "j \<noteq> chat_id c"
  shows "tbl_chats (fst (snd (reconcileChat now c sm (db, chats)))) j = tbl_chats db j
       \<and> storedIds db j - messageId ` set (chat_messages c)
           \<subseteq> storedIds (fst (snd (reconcileChat now c sm (db, chats)))) j"
  unfolding reconcileChat_def prod.case
  using syncMessages_then_frame[OF assms saveChatAndContact_frame[OF assms],
      where now = now and h = "getChatHistoryInfo db (chat_id c)"
        and X = "chats @ [chatEntry c sm]"]
  by blast

lemma processChat_frame:
  assumes "j \<noteq> chat_id c"
  shows "tbl_chats (fst (processChat now c st)) j = tbl_chats (fst st) j
       \<and> storedIds (fst st) j - messageId ` set (chat_messages c)
           \<subseteq> storedIds (fst (processChat now c st)) j"
proof (cases "lastMessageSummary now c")
  case (Inl e)
  then show ?thesis by (simp add: processChat_def processChatBody_def)
next
  case (Inr sm)
  obtain db chats where st: "st = (db, chats)" by (cases st)
  from reconcileChat_frame[OF assms, of now sm db chats] Inr st show ?thesis
    by (simp add: processChat_def processChatBody_def)
qed

lemma fold_processChat_frame:
  assumes "\<forall>c \<in> set cs. chat_id c \<noteq> j"
  shows "tbl_chats (fst (fold (processChat now) cs st)) j = tbl_chats (fst st) j"
  using assms
proof (induction cs arbitrary: st)
  case Nil
  then show ?case by simp
next
  case (Cons c cs)
  then have "j \<noteq> chat_id c" by auto
  from processChat_frame[OF this, of now st] Cons show ?case by simp
qed

lemma fold_processChat_keeps:
  assumes "\<forall>c \<in> set cs. chat_id c \<noteq> j \<and> messageId ` set (chat_messages c) \<inter> S = {}"
    and "S \<subseteq> storedIds (fst st) j"
  shows "S \<subseteq> storedIds (fst (fold (processChat now) cs st)) j"
  using assms
proof (induction cs arbitrary: st)
  case Nil
  then show ?case by simp
next
  case (Cons c cs)
  then have n: "j \<noteq> chat_id c" and d: "messageId ` set (chat_messages c) \<inter> S = {}" by auto
  from processChat_frame[OF n, of now st] d Cons.prems(2)
  have "S \<subseteq> storedIds (fst (processChat now c st)) j" by blast
  with Cons show ?case by simp
qed

lemma row_determines:
  assumes "tbl_chats db1 (chat_id c) = tbl_chats db2 (chat_id c)"
  shows "dateThrows now db1 c = dateThrows now db2 c" "dueIds now db1 c = dueIds now db2 c"
    "lastSyncOf db1 (chat_id c) = lastSyncOf db2 (chat_id c)"
  using assms
  by (simp_all add: dateThrows_def dueIds_def hasBaseline_def lastSyncCursor_def baselineOf_def
        lastSyncOf_def)

lemma dueIds_delivered: "dueIds now db c \<subseteq> messageId ` set (chat_messages c)"
  by (auto simp: dueIds_def savableIds_def newerThan_def)

lemma conversation_isolated:
  assumes dist: "distinct (map chat_id cs)" and mem: "d \<in> set cs"
    and ok: "fst (processChatBody now d (db0, [])) = None"
    and ids: "\<forall>c \<in> set cs. chat_id c \<noteq> chat_id d \<longrightarrow>
                messageId ` set (chat_messages c) \<inter> messageId ` set (chat_messages d) = {}"
  shows "lastSyncOf (fst (fold (processChat now) cs (db0, acc))) (chat_id d) = Some now
       \<and> dueIds now db0 d \<subseteq> storedIds (fst (fold (processChat now) cs (db0, acc))) (chat_id d)"
proof -
  from mem obtain pre post where cs: "cs = pre @ d # post" by (auto dest: split_list)
  from dist cs have n: "chat_id d \<notin> chat_id ` set pre" "chat_id d \<notin> chat_id ` set post"
    by auto
  have o1: "\<forall>c \<in> set pre. chat_id c \<noteq> chat_id d"
  proof
    fix c assume "c \<in> set pre"
    then have "chat_id c \<in> chat_id ` set pre" by (rule imageI)
    with n(1) show "chat_id c \<noteq> chat_id d" by metis
  qed
  have o2: "\<forall>c \<in> set post. chat_id c \<noteq> chat_id d"
  proof
    fix c assume "c \<in> set post"
    then have "chat_id c \<in> chat_id ` set post" by (rule imageI)
    with n(2) show "chat_id c \<noteq> chat_id d" by metis
  qed
  note o = o1 o2
  obtain db1 acc1 where s1: "fold (processChat now) pre (db0, acc) = (db1, acc1)"
    by (cases "fold (processChat now) pre (db0, acc)") blast
  from fold_processChat_frame[OF o(1), of now "(db0, acc)"] s1
  have r1: "tbl_chats db1 (chat_id d) = tbl_chats db0 (chat_id d)" by simp
  from ok obtain sm where sm: "lastMessageSummary now d = Inr sm"
    and nt0: "\<not> dateThrows now db0 d"
    by (auto simp: processChatBody_throws)
  from nt0 row_determines(1)[OF r1, of now] have nt: "\<not> dateThrows now db1 d" by simp
  let ?db2 = "fst (processChat now d (db1, acc1))"
  from reconcileChat_lastSync[OF nt, of sm acc1] reconcileChat_due[OF nt, of sm acc1]
  have a: "lastSyncOf ?db2 (chat_id d) = Some now" "dueIds now db0 d \<subseteq> storedIds ?db2 (chat_id d)"
    by (simp_all add: processChat_fst[OF sm] row_determines(2)[OF r1])
  let ?st2 = "processChat now d (db1, acc1)"
  from fold_processChat_frame[OF o(2), of now ?st2]
  have r2: "tbl_chats (fst (fold (processChat now) post ?st2)) (chat_id d) = tbl_chats ?db2 (chat_id d)" .
  have k: "\<forall>c \<in> set post. chat_id c \<noteq> chat_id d
        \<and> messageId ` set (chat_messages c) \<inter> dueIds now db0 d = {}"
  proof
    fix c assume c: "c \<in> set post"
    then have m: "c \<in> set cs" using cs by simp
    from o2 c have ne: "chat_id c \<noteq> chat_id d" by blast
    with ids m have "messageId ` set (chat_messages c) \<inter> messageId ` set (chat_messages d) = {}"
      by blast
    with dueIds_delivered[of now db0 d]
    have "messageId ` set (chat_messages c) \<inter> dueIds now db0 d = {}" by blast
    with ne show "chat_id c \<noteq> chat_id d
        \<and> messageId ` set (chat_messages c) \<inter> dueIds now db0 d = {}" by blast
  qed
  from fold_processChat_keeps[OF k a(2), of now]
  have keep: "dueIds now db0 d \<subseteq> storedIds (fst (fold (processChat now) post ?st2)) (chat_id d)" .
  have "lastSyncOf (fst (fold (processChat now) post ?st2)) (chat_id d) = Some now"
    using r2 a(1) by (simp add: lastSyncOf_def)
  with keep show ?thesis by (simp add: cs s1)
qed

subsection \<open>The store without a conversation\<close>

text \<open>Every write of the loop body for a conversation other than \<open>x\<close> commutes with
  taking the rows of \<open>x\<close> out of the store, and the writes that a throwing body makes for
  \<open>x\<close> itself are not seen there.\<close>

lemma cascadeDelete_commute:
  "cascadeDelete x (cascadeDelete y ms) = cascadeDelete y (cascadeDelete x ms)"
  by (auto simp: cascadeDelete_def fun_eq_iff split: option.splits)

lemma cascadeDelete_idem: "cascadeDelete x (cascadeDelete x ms) = cascadeDelete x ms"
  by (auto simp: cascadeDelete_def fun_eq_iff split: option.splits)

lemma cascadeDelete_upd:
  "m_chat_jid r \<noteq> x \<Longrightarrow> cascadeDelete x (ms(i \<mapsto> r)) = (cascadeDelete x ms)(i \<mapsto> r)"
  by (auto simp: cascadeDelete_def fun_eq_iff split: option.splits)

lemma withoutChat_sel:
  "tbl_chats (withoutChat x db) = (tbl_chats db)(x := None)"
  "tbl_messages (withoutChat x db) = cascadeDelete x (tbl_messages db)"
  "tbl_contacts (withoutChat x db) = (tbl_contacts db)(x := None)"
  by (simp_all add: withoutChat_def)

lemma store_eqI:
  "tbl_chats a = tbl_chats b \<Longrightarrow> tbl_messages a = tbl_messages b
     \<Longrightarrow> tbl_contacts a = tbl_contacts b \<Longrightarrow> (a::store) = b"
  by simp

lemma withoutChat_saveChat:
  "e \<noteq> x \<Longrightarrow> withoutChat x (saveChat db e n i t a ty f) = saveChat (withoutChat x db) e n i t a ty f"
  by (rule store_eqI)
     (auto simp: saveChat_def withoutChat_sel cascadeDelete_commute fun_upd_twist)

lemma withoutChat_saveContact:
  "e \<noteq> x \<Longrightarrow> withoutChat x (saveContact db e n p a) = saveContact (withoutChat x db) e n p a"
  by (rule store_eqI) (auto simp: saveContact_def withoutChat_sel fun_upd_twist)

lemma withoutChat_setChatHistoryBaseline:
  "e \<noteq> x \<Longrightarrow> withoutChat x (setChatHistoryBaseline db e t)
     = setChatHistoryBaseline (withoutChat x db) e t"
  by (rule store_eqI)
     (auto simp: setChatHistoryBaseline_def withoutChat_sel fun_upd_twist split: option.splits)

lemma withoutChat_updateChatSyncTimestamp:
  "e \<noteq> x \<Longrightarrow> withoutChat x (updateChatSyncTimestamp db e t)
     = updateChatSyncTimestamp (withoutChat x db) e t"
  by (rule store_eqI)
     (auto simp: updateChatSyncTimestamp_def withoutChat_sel fun_upd_twist split: option.splits)

lemma withoutChat_saveMessage:
  "e \<noteq> x \<Longrightarrow> saveMessage (withoutChat x db) i e fm co t ty st sn cs
     = map_sum id (withoutChat x) (saveMessage db i e fm co t ty st sn cs)"
  unfolding saveMessage_def Let_def
  by (cases "sqlInt t"; cases "tbl_chats db e")
     (auto simp: withoutChat_def saveContact_def cascadeDelete_upd fun_upd_twist)

lemma withoutChat_saveHistoryMessage:
  "e \<noteq> x \<Longrightarrow> saveHistoryMessage now e cn sess msg (withoutChat x db, a, b)
     = (case saveHistoryMessage now e cn sess msg (db, a, b) of
          (db', a', b') \<Rightarrow> (withoutChat x db', a', b'))"
  by (simp add: saveHistoryMessage_def Let_def withoutChat_saveMessage
        split: option.splits sum.splits)

lemma withoutChat_saveHistoryLoop:
  "e \<noteq> x \<Longrightarrow> saveHistoryLoop now e cn sess msgs (withoutChat x db, a, b)
     = (case saveHistoryLoop now e cn sess msgs (db, a, b) of
          (db', a', b') \<Rightarrow> (withoutChat x db', a', b'))"
proof (induction msgs arbitrary: db a b)
  case Nil
  then show ?case by (simp add: saveHistoryLoop_Nil)
next
  case (Cons m ms)
  obtain d a' b' where s: "saveHistoryMessage now e cn sess m (db, a, b) = (d, a', b')"
    by (cases "saveHistoryMessage now e cn sess m (db, a, b)") blast
  show ?case
    using Cons.prems Cons.IH[OF Cons.prems, of d a' b']
    by (simp add: saveHistoryLoop_Cons withoutChat_saveHistoryMessage s)
qed

lemma withoutChat_saveMessagesFromHistory:
  "chat_id c \<noteq> x \<Longrightarrow> fst (saveMessagesFromHistory now c sess (withoutChat x db))
     = withoutChat x (fst (saveMessagesFromHistory now c sess db))"
  by (simp add: saveMessagesFromHistory_def withoutChat_saveHistoryLoop split: prod.splits)

lemma withoutChat_syncMessages:
  "chat_id c \<noteq> x \<Longrightarrow> syncMessages now c h (withoutChat x db)
     = (fst (syncMessages now c h db), withoutChat x (snd (syncMessages now c h db)))"
  by (simp add: syncMessages_def Let_def withoutChat_setChatHistoryBaseline[symmetric]
        withoutChat_saveMessagesFromHistory)

lemma withoutChat_saveChatAndContact:
  "chat_id c \<noteq> x \<Longrightarrow> saveChatAndContact c sm (withoutChat x db)
     = withoutChat x (saveChatAndContact c sm db)"
  by (simp add: saveChatAndContact_def Let_def chatEntry_def withoutChat_saveChat
        withoutChat_saveContact)

lemma withoutChat_processChat:
  assumes "chat_id c \<noteq> x"
  shows "fst (processChat now c (withoutChat x db, l)) = withoutChat x (fst (processChat now c (db, l')))"
proof (cases "lastMessageSummary now c")
  case (Inl e)
  then show ?thesis by (simp add: processChat_def processChatBody_def)
next
  case (Inr sm)
  have h: "getChatHistoryInfo (withoutChat x db) (chat_id c) = getChatHistoryInfo db (chat_id c)"
    using assms by (simp add: getChatHistoryInfo_def withoutChat_sel)
  obtain er d where s: "syncMessages now c (getChatHistoryInfo db (chat_id c))
      (saveChatAndContact c sm db) = (er, d)"
    by (cases "syncMessages now c (getChatHistoryInfo db (chat_id c)) (saveChatAndContact c sm db)")
       blast
  show ?thesis
    using assms
    by (cases er)
       (simp_all add: processChat_def processChatBody_def Inr reconcileChat_def h s
          withoutChat_saveChatAndContact withoutChat_syncMessages
          withoutChat_updateChatSyncTimestamp)
qed

lemma withoutChat_fold:
  "x \<notin> chat_id ` set cs
     \<Longrightarrow> fst (fold (processChat now) cs (withoutChat x db, l))
       = withoutChat x (fst (fold (processChat now) cs (db, l')))"
proof (induction cs arbitrary: db l l')
  case Nil
  then show ?case by simp
next
  case (Cons c cs)
  obtain d1 l1 where a: "processChat now c (withoutChat x db, l) = (d1, l1)"
    by (cases "processChat now c (withoutChat x db, l)") blast
  obtain d2 l2 where b: "processChat now c (db, l') = (d2, l2)"
    by (cases "processChat now c (db, l')") blast
  from Cons.prems have ne: "chat_id c \<noteq> x" and rest: "x \<notin> chat_id ` set cs" by auto
  from withoutChat_processChat[OF ne, of now db l l'] a b have "d1 = withoutChat x d2" by simp
  with Cons.IH[OF rest, of d2 l1 l2] a b show ?case by simp
qed

lemma withoutChat_thrown:
  assumes "fst (processChatBody now c (db, l)) = Some err"
  shows "withoutChat (chat_id c) (fst (processChat now c (db, l))) = withoutChat (chat_id c) db"
proof (cases "lastMessageSummary now c")
  case (Inl e)
  then show ?thesis by (simp add: processChat_def processChatBody_def)
next
  case (Inr sm)
  have sc: "withoutChat (chat_id c) (saveChatAndContact c sm db) = withoutChat (chat_id c) db"
    by (rule store_eqI)
       (auto simp: saveChatAndContact_def Let_def chatEntry_def saveChat_def saveContact_def
          withoutChat_sel cascadeDelete_idem)
  have sb: "\<And>d t. withoutChat (chat_id c) (setChatHistoryBaseline d (chat_id c) t)
      = withoutChat (chat_id c) d"
    by (rule store_eqI)
       (auto simp: setChatHistoryBaseline_def withoutChat_sel split: option.splits)
  from assms Inr show ?thesis
    by (auto simp: processChat_def processChatBody_def reconcileChat_def syncMessages_def Let_def
          sc sb split: if_splits prod.splits option.splits)
qed

lemma thrown_conversation_isolated:
  assumes "fst (processChatBody now c (fold (processChat now) csa (db, [])) ) = Some err"
    and "chat_id c \<notin> chat_id ` set csb"
  shows "withoutChat (chat_id c) (fst (fold (processChat now) (csa @ c # csb) (db, [])))
       = withoutChat (chat_id c) (fst (fold (processChat now) (csa @ csb) (db, [])))"
proof -
  obtain d l where s: "fold (processChat now) csa (db, []) = (d, l)"
    by (cases "fold (processChat now) csa (db, [])") blast
  obtain d1 l1 where p: "processChat now c (d, l) = (d1, l1)"
    by (cases "processChat now c (d, l)") blast
  from assms(1) s have "fst (processChatBody now c (d, l)) = Some err" by simp
  from withoutChat_thrown[OF this] p have e: "withoutChat (chat_id c) d1 = withoutChat (chat_id c) d"
    by simp
  have "withoutChat (chat_id c) (fst (fold (processChat now) csb (d1, l1)))
      = fst (fold (processChat now) csb (withoutChat (chat_id c) d1, []))"
    using withoutChat_fold[OF assms(2), of now d1 "[]" l1] by simp
  also have "\<dots> = withoutChat (chat_id c) (fst (fold (processChat now) csb (d, l)))"
    unfolding e using withoutChat_fold[OF assms(2), of now d "[]" l] by simp
  finally show ?thesis by (simp add: s p)
qed

text \<open>
  C6. If the \<^verbatim>\<open>saveMessage\<close> call for a message throws in the state the loop of
  \<^verbatim>\<open>saveMessagesFromHistory\<close> has reached, the loop ends as it does on the list without that
  message, with the skipped counter one higher. If the loop body of \<^verbatim>\<open>handleHistorySet\<close>
  throws for a conversation that is not listed again later in the delivery, the handler
  leaves the store, apart from the rows of that conversation, as it does on the delivery
  without the conversation. And in a delivery that lists every conversation once and no
  message id under two conversations, each conversation whose own loop body does not throw
  ends with the delivery's time as its last-sync cursor and with its due messages stored,
  whichever of the other conversations throw.
\<close>

theorem failure_isolation:
  "(persistFails now cid cn sess msg (fst (saveHistoryLoop now cid cn sess xs st))
      \<longrightarrow> saveHistoryLoop now cid cn sess (xs @ msg # ys) st
          = (case saveHistoryLoop now cid cn sess (xs @ ys) st of
               (db', saved, skipped) \<Rightarrow> (db', saved, Suc skipped)))
   \<and> (fst (processChatBody now c (fold (processChat now) csa (database b, []))) = Some err
        \<and> chat_id c \<notin> chat_id ` set csb
      \<longrightarrow> withoutChat (chat_id c)
            (database (handleHistorySet now \<lparr>item_chats = csa @ c # csb, isLatest = l\<rparr> b))
          = withoutChat (chat_id c)
              (database (handleHistorySet now \<lparr>item_chats = csa @ csb, isLatest = l\<rparr> b)))
   \<and> (distinct (map chat_id cs) \<and> d \<in> set cs
        \<and> fst (processChatBody now d (database b, [])) = None
        \<and> (\<forall>c' \<in> set cs. chat_id c' \<noteq> chat_id d \<longrightarrow>
              messageId ` set (chat_messages c') \<inter> messageId ` set (chat_messages d) = {})
      \<longrightarrow> lastSyncOf (database (handleHistorySet now \<lparr>item_chats = cs, isLatest = l\<rparr> b))
            (chat_id d) = Some now
          \<and> dueIds now (database b) d
            \<subseteq> storedIds (database (handleHistorySet now \<lparr>item_chats = cs, isLatest = l\<rparr> b))
                (chat_id d))"
proof (intro conjI impI)
  assume "persistFails now cid cn sess msg (fst (saveHistoryLoop now cid cn sess xs st))"
  then show "saveHistoryLoop now cid cn sess (xs @ msg # ys) st
      = (case saveHistoryLoop now cid cn sess (xs @ ys) st of
           (db', saved, skipped) \<Rightarrow> (db', saved, Suc skipped))"
    by (rule message_failure_skipped)
next
  assume "fst (processChatBody now c (fold (processChat now) csa (database b, []))) = Some err
      \<and> chat_id c \<notin> chat_id ` set csb"
  then show "withoutChat (chat_id c)
        (database (handleHistorySet now \<lparr>item_chats = csa @ c # csb, isLatest = l\<rparr> b))
      = withoutChat (chat_id c)
          (database (handleHistorySet now \<lparr>item_chats = csa @ csb, isLatest = l\<rparr> b))"
    using thrown_conversation_isolated[of now c csa "database b" err csb]
    by (simp add: handleHistorySet_database)
next
  assume a: "distinct (map chat_id cs) \<and> d \<in> set cs
      \<and> fst (processChatBody now d (database b, [])) = None
      \<and> (\<forall>c' \<in> set cs. chat_id c' \<noteq> chat_id d \<longrightarrow>
            messageId ` set (chat_messages c') \<inter> messageId ` set (chat_messages d) = {})"
  from a conversation_isolated[of cs d now "database b" "[]"]
  show "lastSyncOf (database (handleHistorySet now \<lparr>item_chats = cs, isLatest = l\<rparr> b))
        (chat_id d) = Some now"
    by (simp add: handleHistorySet_database)
  from a conversation_isolated[of cs d now "database b" "[]"]
  show "dueIds now (database b) d
      \<subseteq> storedIds (database (handleHistorySet now \<lparr>item_chats = cs, isLatest = l\<rparr> b))
          (chat_id d)"
    by (simp add: handleHistorySet_database)
qed

lemma parseInt_abc: "parseInt ''abc'' = NaN"
  by (simp add: parseInt_def isWhite_def parseUnsigned_def parseDigits_def isDigit_def
        digitVal_def Let_def)

lemma unparsableMessage_facts:
  "getMessageTimestamp now unparsableMessage = NaN" "messageId unparsableMessage = ''mx''"
  "getMessageKey unparsableMessage
      = Some \<lparr>key_id = ''mx'', fromMe = False, remoteJid = Some ''A''\<rparr>"
  by (simp_all add: getMessageTimestamp_def messageId_def getMessageKey_def unparsableMessage_def
        textMessage_def parseInt_abc)

lemma setChatHistoryBaseline_lastSync:
  "lastSyncOf (setChatHistoryBaseline db jid ts) = lastSyncOf db"
  by (auto simp: setChatHistoryBaseline_def lastSyncOf_def fun_eq_iff split: option.splits)

text \<open>
  The conversation X, whose last listed message has a timestamp that is not a number, in a
  store where it has no baseline: the log line throws the RangeError after \<^verbatim>\<open>chats.push\<close>,
  \<^verbatim>\<open>saveChat\<close> and \<^verbatim>\<open>setChatHistoryBaseline\<close>, so the row of X and its entry in the list
  stay, while no message of the delivery is stored and no last-sync cursor is written.
\<close>

lemma date_throws_after_writes:
  assumes "\<not> hasBaseline db ''X''"
  shows "fst (processChatBody now invalidDateChat (db, l)) = Some RangeError"
    "hasRow (fst (processChat now invalidDateChat (db, l))) ''X''"
    "storedIds (fst (processChat now invalidDateChat (db, l))) ''X''
       = (if hasRow db ''X'' then {} else storedIds db ''X'')"
    "lastSyncOf (fst (processChat now invalidDateChat (db, l))) ''X'' = None"
    "length (snd (processChat now invalidDateChat (db, l))) = Suc (length l)"
proof -
  have "\<exists>sm. lastMessageSummary now invalidDateChat = Inr sm"
    by (simp add: lastMessageSummary_def invalidDateChat_def textMessage_def Let_def)
  then obtain sm where sm: "lastMessageSummary now invalidDateChat = Inr sm" ..
  have id: "chat_id invalidDateChat = ''X''" by (simp add: invalidDateChat_def)
  have lst: "getMessageTimestamp now (last (chat_messages invalidDateChat)) = NaN"
    "chat_messages invalidDateChat \<noteq> []"
    by (simp_all add: invalidDateChat_def unparsableMessage_facts)
  have sy: "syncMessages now invalidDateChat (getChatHistoryInfo db ''X'')
        (saveChatAndContact invalidDateChat sm db)
      = (Some RangeError,
         setChatHistoryBaseline (saveChatAndContact invalidDateChat sm db) ''X'' NaN)"
    using assms by (simp add: syncMessages_def isNewChat_iff lst id validDate_def Let_def)
  have body: "processChatBody now invalidDateChat (db, l)
      = (Some RangeError,
         setChatHistoryBaseline (saveChatAndContact invalidDateChat sm db) ''X'' NaN,
         l @ [chatEntry invalidDateChat sm])"
    by (simp add: processChatBody_def sm reconcileChat_def id sy)
  note e = saveChatAndContact_effect[of invalidDateChat sm db, unfolded id]
  show "fst (processChatBody now invalidDateChat (db, l)) = Some RangeError"
    by (simp add: body)
  show "hasRow (fst (processChat now invalidDateChat (db, l))) ''X''"
    by (simp add: processChat_def body setChatHistoryBaseline_effect e)
  show "storedIds (fst (processChat now invalidDateChat (db, l))) ''X''
       = (if hasRow db ''X'' then {} else storedIds db ''X'')"
    by (simp add: processChat_def body setChatHistoryBaseline_effect e)
  show "lastSyncOf (fst (processChat now invalidDateChat (db, l))) ''X'' = None"
    by (simp add: processChat_def body setChatHistoryBaseline_lastSync e)
  show "length (snd (processChat now invalidDateChat (db, l))) = Suc (length l)"
    by (simp add: processChat_def body)
qed

text \<open>
  A conversation delivered with a message whose timestamp cannot be stored between two good
  ones; and a delivery of A, B, X and C in which B throws before its first write and X
  after its writes: the row of X is in the store, which the delivery of A, B and C leaves
  without one, the rest of the store is the same, and C is stamped and has its message.
\<close>

theorem failure_isolation_witness:
  "persistFails 250000 ''A'' None ''s'' unparsableMessage
      (fst (saveHistoryLoop 250000 ''A'' None ''s'' [textMessage ''m1'' ''A'' 100 ''one'']
         (oneChat, 0, 0)))
   \<and> snd (saveHistoryLoop 250000 ''A'' None ''s''
        ([textMessage ''m1'' ''A'' 100 ''one''] @ unparsableMessage
           # [textMessage ''m2'' ''A'' 200 ''two'']) (oneChat, 0, 0)) = (2, 1)
   \<and> storedIds (fst (saveHistoryLoop 250000 ''A'' None ''s''
        ([textMessage ''m1'' ''A'' 100 ''one''] @ unparsableMessage
           # [textMessage ''m2'' ''A'' 200 ''two'']) (oneChat, 0, 0))) ''A'' = {''m1'', ''m2''}
   \<and> fst (processChatBody 250000 wrappedChat (emptyStore, [])) = Some TypeError
   \<and> fst (processChatBody 250000 invalidDateChat
        (fold (processChat 250000) [firstSyncChat, wrappedChat] (database freshBackend, [])))
      = Some RangeError
   \<and> hasRow (database (handleHistorySet 250000
        \<lparr>item_chats = [firstSyncChat, wrappedChat] @ invalidDateChat # [thirdChat],
         isLatest = True\<rparr> freshBackend)) ''X''
   \<and> \<not> hasRow (database (handleHistorySet 250000
        \<lparr>item_chats = [firstSyncChat, wrappedChat] @ [thirdChat],
         isLatest = True\<rparr> freshBackend)) ''X''
   \<and> withoutChat ''X'' (database (handleHistorySet 250000
        \<lparr>item_chats = [firstSyncChat, wrappedChat] @ invalidDateChat # [thirdChat],
         isLatest = True\<rparr> freshBackend))
      = withoutChat ''X'' (database (handleHistorySet 250000
        \<lparr>item_chats = [firstSyncChat, wrappedChat] @ [thirdChat],
         isLatest = True\<rparr> freshBackend))
   \<and> fst (processChatBody 250000 thirdChat (database freshBackend, [])) = None
   \<and> lastSyncOf (database (handleHistorySet 250000
        \<lparr>item_chats = [firstSyncChat, wrappedChat, invalidDateChat, thirdChat],
         isLatest = True\<rparr> freshBackend)) ''C'' = Some 250000
   \<and> ''c1'' \<in> storedIds (database (handleHistorySet 250000
        \<lparr>item_chats = [firstSyncChat, wrappedChat, invalidDateChat, thirdChat],
         isLatest = True\<rparr> freshBackend)) ''C''"
proof -
  let ?xs = "[textMessage ''m1'' ''A'' 100 ''one'']"
  let ?ys = "[textMessage ''m2'' ''A'' 200 ''two'']"
  let ?csa = "[firstSyncChat, wrappedChat]"
  let ?csb = "[thirdChat]"
  let ?cs = "[firstSyncChat, wrappedChat, invalidDateChat, thirdChat]"
  let ?H = "\<lambda>cs. database (handleHistorySet 250000 \<lparr>item_chats = cs, isLatest = True\<rparr>
      freshBackend)"
  have pf: "persistFails 250000 ''A'' None ''s'' unparsableMessage
      (fst (saveHistoryLoop 250000 ''A'' None ''s'' ?xs (oneChat, 0, 0)))"
    by (simp add: persistFails_def unparsableMessage_facts saveMessage_def)
  have hr: "hasRow oneChat ''A''" by (simp add: oneChat_def saveChat_effect)
  have two: "snd (saveHistoryLoop 250000 ''A'' None ''s'' (?xs @ ?ys) (oneChat, 0, 0)) = (2, 0)"
    by (simp add: eval_defs oneChat_def)
  have ids: "storedIds (fst (saveHistoryLoop 250000 ''A'' None ''s'' (?xs @ ?ys) (oneChat, 0, 0))) ''A''
      = {''m1'', ''m2''}"
    using saveHistoryLoop_effect[OF hr, of 250000 None "''s''" "?xs @ ?ys" 0 0]
    by (simp add: savableIds_Cons savableIds_Nil textMessage_savable oneChat_def saveChat_effect
          emptyStore_facts insert_commute)
  have te: "fst (processChatBody 250000 wrappedChat (emptyStore, [])) = Some TypeError"
    by (simp add: processChatBody_def lastMessageSummary_def wrappedChat_def historyWrapped_def)
  have fb: "database freshBackend = emptyStore" by (simp add: freshBackend_def)
  have cid: "chat_id firstSyncChat = ''A''" "chat_id wrappedChat = ''B''"
      "chat_id invalidDateChat = ''X''" "chat_id thirdChat = ''C''"
    by (simp_all add: firstSyncChat_def wrappedChat_def invalidDateChat_def thirdChat_def)
  obtain da la where sa: "fold (processChat 250000) ?csa (database freshBackend, []) = (da, la)"
    by (cases "fold (processChat 250000) ?csa (database freshBackend, [])") blast
  have "tbl_chats (fst (fold (processChat 250000) ?csa (database freshBackend, []))) ''X''
      = tbl_chats (fst (database freshBackend, [])) ''X''"
    using fold_processChat_frame[where cs = ?csa and j = "''X''" and now = 250000
        and st = "(database freshBackend, [])"]
    by (simp add: cid)
  with sa have ra: "tbl_chats da ''X'' = None" by (simp add: fb emptyStore_def)
  then have nb: "\<not> hasBaseline da ''X''" "\<not> hasRow da ''X''"
    by (simp_all add: hasBaseline_def baselineOf_def truthyInt_def hasRow_def)
  have re: "fst (processChatBody 250000 invalidDateChat
      (fold (processChat 250000) ?csa (database freshBackend, []))) = Some RangeError"
    unfolding sa by (rule date_throws_after_writes(1)[OF nb(1)])
  have "tbl_chats (fst (fold (processChat 250000) ?csb (processChat 250000 invalidDateChat (da, la))))
      ''X'' = tbl_chats (fst (processChat 250000 invalidDateChat (da, la))) ''X''"
    using fold_processChat_frame[where cs = ?csb and j = "''X''" and now = 250000
        and st = "processChat 250000 invalidDateChat (da, la)"]
    by (simp add: cid)
  with date_throws_after_writes(2)[OF nb(1), of 250000 la] sa
  have h1: "hasRow (?H (?csa @ invalidDateChat # ?csb)) ''X''"
    by (simp add: handleHistorySet_database hasRow_def)
  have "tbl_chats (fst (fold (processChat 250000) ?csb (da, la))) ''X'' = tbl_chats (fst (da, la)) ''X''"
    using fold_processChat_frame[where cs = ?csb and j = "''X''" and now = 250000
        and st = "(da, la)"]
    by (simp add: cid)
  with ra sa have h2: "\<not> hasRow (?H (?csa @ ?csb)) ''X''"
    by (simp add: handleHistorySet_database hasRow_def)
  have nl: "''X'' \<notin> chat_id ` set ?csb" by (simp add: cid)
  have ok: "fst (processChatBody 250000 thirdChat (database freshBackend, [])) = None"
    unfolding processChatBody_throws
    by (simp add: lastMessageSummary_def dateThrows_def freshBackend_def emptyStore_facts
          thirdChat_def textMessage_validDate) (simp add: textMessage_def)
  have dist: "distinct (map chat_id ?cs)" by (simp add: cid)
  have mem: "thirdChat \<in> set ?cs" by simp
  have hw: "messageId historyWrapped = ''h1''"
    by (simp add: messageId_def getMessageKey_def historyWrapped_def)
  have dj: "\<forall>c' \<in> set ?cs. chat_id c' \<noteq> chat_id thirdChat \<longrightarrow>
      messageId ` set (chat_messages c') \<inter> messageId ` set (chat_messages thirdChat) = {}"
    by (simp add: firstSyncChat_def wrappedChat_def invalidDateChat_def thirdChat_def
          textMessage_savable unparsableMessage_facts hw)
  have due: "dueIds 250000 (database freshBackend) thirdChat = {''c1''}"
    by (simp add: dueIds_def freshBackend_def emptyStore_facts thirdChat_def savableIds_Cons
          savableIds_Nil textMessage_savable)
  note t = failure_isolation [where now = 250000 and cid = "''A''" and cn = None and sess = "''s''"
      and msg = unparsableMessage and xs = ?xs and st = "(oneChat, 0, 0)" and ys = ?ys
      and c = invalidDateChat and csa = ?csa and csb = ?csb and err = RangeError
      and cs = ?cs and d = thirdChat and b = freshBackend and l = True]
  from t pf have l1: "saveHistoryLoop 250000 ''A'' None ''s'' (?xs @ unparsableMessage # ?ys) (oneChat, 0, 0)
      = (case saveHistoryLoop 250000 ''A'' None ''s'' (?xs @ ?ys) (oneChat, 0, 0) of
           (db', saved, skipped) \<Rightarrow> (db', saved, Suc skipped))"
    by blast
  from t re nl have w: "withoutChat ''X'' (?H (?csa @ invalidDateChat # ?csb))
      = withoutChat ''X'' (?H (?csa @ ?csb))"
    unfolding cid by blast
  from t dist mem ok dj
  have l2: "lastSyncOf (?H ?cs) (chat_id thirdChat) = Some 250000
      \<and> dueIds 250000 (database freshBackend) thirdChat \<subseteq> storedIds (?H ?cs) (chat_id thirdChat)"
    by blast
  from l2 due have c: "lastSyncOf (?H ?cs) ''C'' = Some 250000" "''c1'' \<in> storedIds (?H ?cs) ''C''"
    by (simp_all add: cid)
  obtain d a b where L: "saveHistoryLoop 250000 ''A'' None ''s'' (?xs @ ?ys) (oneChat, 0, 0) = (d, a, b)"
    by (cases "saveHistoryLoop 250000 ''A'' None ''s'' (?xs @ ?ys) (oneChat, 0, 0)") blast
  from l1 L have l1': "saveHistoryLoop 250000 ''A'' None ''s'' (?xs @ unparsableMessage # ?ys)
      (oneChat, 0, 0) = (d, a, Suc b)"
    by simp
  from two L have ab: "a = 2" "b = 0" by simp_all
  from ids L have di: "storedIds d ''A'' = {''m1'', ''m2''}" by simp
  have s1: "snd (saveHistoryLoop 250000 ''A'' None ''s'' (?xs @ unparsableMessage # ?ys) (oneChat, 0, 0))
      = (2, 1)"
    unfolding l1' using ab by simp
  have s2: "storedIds (fst (saveHistoryLoop 250000 ''A'' None ''s''
      (?xs @ unparsableMessage # ?ys) (oneChat, 0, 0))) ''A'' = {''m1'', ''m2''}"
    unfolding l1' using di by simp
  from pf s1 s2 te re h1 h2 w ok c show ?thesis by (simp only: simp_thms)
qed

section \<open>Consumer commands\<close>

text \<open>
  C10. A command whose type is not one of the recognized ones, arriving while the consumer
  socket is open, appends the error envelope of type \<^verbatim>\<open>unknown_command\<close> that names the
  type, changes nothing else, leaves the socket open, and the next recognized command still
  reaches its handler.
\<close>

theorem unknown_command_answered:
  assumes "cmd_type cmd \<notin> Some ` set recognizedCommands" and "clientSocket b = Some OPEN"
  shows "handleFrontendCommand handlers cmd b
         = b\<lparr>outbox := outbox b @ [(''error'', ErrorInfo ''unknown_command''
                (''Unknown command: '' @ typeText (cmd_type cmd)))]\<rparr>
       \<and> clientSocket (handleFrontendCommand handlers cmd b) = Some OPEN
       \<and> (\<forall>t \<in> set recognizedCommands. \<forall>d.
            handleFrontendCommand handlers \<lparr>cmd_type = Some t, cmd_data = d\<rparr>
              (handleFrontendCommand handlers cmd b)
            = handlers t d (handleFrontendCommand handlers cmd b))"
proof -
  have u: "handleFrontendCommand handlers cmd b
         = b\<lparr>outbox := outbox b @ [(''error'', ErrorInfo ''unknown_command''
                (''Unknown command: '' @ typeText (cmd_type cmd)))]\<rparr>"
    using assms by (simp add: handleFrontendCommand_def recognizedCommands_def sendToFrontend_def)
  have k: "\<And>t d b'. t \<in> set recognizedCommands \<Longrightarrow>
      handleFrontendCommand handlers \<lparr>cmd_type = Some t, cmd_data = d\<rparr> b' = handlers t d b'"
    by (auto simp: handleFrontendCommand_def recognizedCommands_def)
  show ?thesis using u k assms(2) by simp
qed

text \<open>The unknown-command scenario with handlers that leave the state as it is.\<close>

theorem unknown_command_answered_witness:
  "handleFrontendCommand (\<lambda>t d b. b) \<lparr>cmd_type = Some ''bogus'', cmd_data = ()\<rparr>
      (freshBackend\<lparr>clientSocket := Some OPEN\<rparr>)
     = freshBackend\<lparr>clientSocket := Some OPEN,
         outbox := [(''error'', ErrorInfo ''unknown_command'' ''Unknown command: bogus'')]\<rparr>
   \<and> handleFrontendCommand (\<lambda>t d b. b) \<lparr>cmd_type = Some ''health_check'', cmd_data = ()\<rparr>
        (handleFrontendCommand (\<lambda>t d b. b) \<lparr>cmd_type = Some ''bogus'', cmd_data = ()\<rparr>
           (freshBackend\<lparr>clientSocket := Some OPEN\<rparr>))
     = (\<lambda>t d b. b) ''health_check'' ()
        (handleFrontendCommand (\<lambda>t d b. b) \<lparr>cmd_type = Some ''bogus'', cmd_data = ()\<rparr>
           (freshBackend\<lparr>clientSocket := Some OPEN\<rparr>))"
proof -
  let ?cmd = "\<lparr>cmd_type = Some ''bogus'', cmd_data = ()\<rparr>"
  let ?b = "freshBackend\<lparr>clientSocket := Some OPEN\<rparr>"
  have h1: "cmd_type ?cmd \<notin> Some ` set recognizedCommands"
    by (simp add: recognizedCommands_def)
  have h2: "clientSocket ?b = Some OPEN" by simp
  note t = unknown_command_answered [OF h1 h2, of "\<lambda>t d b. b"]
  from t have a: "handleFrontendCommand (\<lambda>t d b. b) ?cmd ?b
     = freshBackend\<lparr>clientSocket := Some OPEN,
         outbox := [(''error'', ErrorInfo ''unknown_command'' ''Unknown command: bogus'')]\<rparr>"
    by (simp add: freshBackend_def typeText_def)
  have "''health_check'' \<in> set recognizedCommands" by (simp add: recognizedCommands_def)
  with t have b: "handleFrontendCommand (\<lambda>t d b. b) \<lparr>cmd_type = Some ''health_check'', cmd_data = ()\<rparr>
        (handleFrontendCommand (\<lambda>t d b. b) ?cmd ?b)
     = (\<lambda>t d b. b) ''health_check'' () (handleFrontendCommand (\<lambda>t d b. b) ?cmd ?b)"
    by blast
  from a b show ?thesis by blast
qed

section \<open>The live event processor\<close>




text \<open>A text message for a conversation that has no row is not stored and not announced:
  the insert violates the foreign key and the handler's \<^verbatim>\<open>catch\<close> logs the error.\<close>

lemma live_message_unseen_conversation:
  "handleMessagesUpsert (\<lambda>v. NaN)
     \<lparr>up_messages = [textMessage ''m9'' ''Z'' 500 ''hi''], up_type = ''notify''\<rparr>
     (freshBackend\<lparr>database := oneChat, clientSocket := Some OPEN\<rparr>)
   = freshBackend\<lparr>database := oneChat, clientSocket := Some OPEN\<rparr>"
  by (simp add: handleMessagesUpsert_def handleMessagesUpsertBody_def getDisplayMessage_def
        messageObj_def textMessage_def textContent_def mulThousand_def saveMessage_def
        oneChat_def saveChat_def emptyStore_def freshBackend_def)

end
